theory Spec2Isabelle
  imports Main "HOL-Library.Sublist"
begin

section \<open>The DICOM demonstration notebook (dcm-demo.py)\<close>

text \<open>
  The notebook is straight-line Python: every statement is one call into a library
  (dbutils, spark, databricks.pixels). The model keeps that shape. A library call is a
  value of type \<open>call\<close>; running it appends one event to a trace, either with the value
  it returned or with the exception it raised. The notebook is the sequence of its calls
  in a state-and-exception monad, cell by cell, in the order of the file.

  Not modelled: the markdown cells, the import statements (they bind names and call
  nothing), and the spark session handed to Catalog.catalog and Catalog.load. A
  dataframe is its columns and the list of its rows; how the engine partitions or orders
  the rows is outside the model.
\<close>

subsection \<open>Data\<close>

record dataframe =
  columns :: "string list"
  rows :: "string list list"

record frames =
  frames_df :: dataframe
  with_meta :: bool
  input_col :: string

datatype table_ref = ConfVar string

record sql_stmt =
  projection :: string
  from_table :: table_ref
  where_clause :: "string option"
  order_by :: "string option"

datatype exn =
    LibraryError string
  | InputWidgetNotDefined string
  | ConfKeyNotSet string
  | TableNotFound string
  | IllegalArgument string

datatype pyvalue =
    VNone
  | VStr string
  | VInt int
  | VFiles "string list"
  | VDf dataframe
  | VExtractor
  | VFrames frames
  | VPlots "string list"

datatype call =
    PipInstall string
  | WidgetsText string string string
  | WidgetsGet string
  | ConfSet string string
  | Print "string list"
  | FsLs string
  | Display pyvalue
  | CatalogCatalog string
  | CatalogSave dataframe string string
  | SqlCell sql_stmt
  | CatalogLoad string
  | Count dataframe
  | NewDicomMetaExtractor
  | Repartition dataframe nat
  | Transform dataframe
  | SparkTable string
  | Filter dataframe string
  | Limit dataframe nat
  | NewDicomFrames dataframe bool string
  | Plotx frames
  | CellValue pyvalue

datatype outcome = Returned pyvalue | Raised exn

type_synonym event = "call \<times> outcome"

record world =
  widgets :: "string \<rightharpoonup> string"
  conf :: "string \<rightharpoonup> string"
  tables :: "string \<rightharpoonup> dataframe"

text \<open>
  What lies outside the notebook and outside this model: which library call fails and
  with which exception (\<open>fails\<close>, asked with the number of calls issued so far and the
  call), what the storage holds, what the cataloging routine derives from a path, what the
  DICOM header of a file says, how the engine evaluates a query text or a filter
  expression on a row, and what a thumbnail looks like.
\<close>

record ext =
  fails :: "nat \<Rightarrow> call \<Rightarrow> exn option"
  ls :: "string \<Rightarrow> string list"
  catalog_files :: "string \<Rightarrow> dataframe"
  dicom_meta :: "string list \<Rightarrow> string list \<Rightarrow> string"
  sql_select :: "string \<Rightarrow> string option \<Rightarrow> string option \<Rightarrow> dataframe \<Rightarrow> dataframe"
  sql_pred :: "string \<Rightarrow> string list \<Rightarrow> string list \<Rightarrow> bool"
  thumbnail :: "bool \<Rightarrow> string \<Rightarrow> string list \<Rightarrow> string list \<Rightarrow> string"

record vars =
  path :: string
  table :: string
  catalog_df :: dataframe
  meta_df :: dataframe
  dcm_df_filtered :: dataframe
  plots :: "string list"

subsection \<open>The monad: state, trace, exceptions\<close>

type_synonym state = "world \<times> event list"

type_synonym 'a nb = "state \<Rightarrow> (exn + 'a) \<times> state"

definition return_nb :: "'a \<Rightarrow> 'a nb" where
  "return_nb a = (\<lambda>s. (Inr a, s))"

text \<open>A raised exception ends the run: nothing after it is executed.\<close>

definition then_nb :: "'a nb \<Rightarrow> ('a \<Rightarrow> 'b nb) \<Rightarrow> 'b nb" where
  "then_nb m f = (\<lambda>s. case m s of (Inl e, s') \<Rightarrow> (Inl e, s') | (Inr a, s') \<Rightarrow> f a s')"

text \<open>
  One library call: it fails if the outside says so or if its own semantics raises;
  otherwise it returns, possibly with a changed world. Either way the call is logged.
\<close>

definition lib :: "ext \<Rightarrow> call \<Rightarrow> (world \<Rightarrow> exn + 'a \<times> world) \<Rightarrow> ('a \<Rightarrow> pyvalue) \<Rightarrow> 'a nb" where
  "lib x c sem wrap = (\<lambda>(w, tr).
     case fails x (length tr) c of
       Some e \<Rightarrow> (Inl e, w, tr @ [(c, Raised e)])
     | None \<Rightarrow>
        (case sem w of
           Inl e \<Rightarrow> (Inl e, w, tr @ [(c, Raised e)])
         | Inr (a, w') \<Rightarrow> (Inr a, w', tr @ [(c, Returned (wrap a))])))"

definition pure_sem :: "'a \<Rightarrow> world \<Rightarrow> exn + 'a \<times> world" where
  "pure_sem a = (\<lambda>w. Inr (a, w))"

subsection \<open>The libraries the notebook calls\<close>

text \<open>
  Modelled from the spec: none of the library functions below is in src/; the notebook
  only calls them. dbutils and spark are the platform's; Catalog, DicomMetaExtractor and
  DicomFrames are the package databricks.pixels. Each definition says what the call is
  taken to do; what cannot be known from the notebook is a field of \<open>ext\<close>.
\<close>

text \<open>Modelled from the spec: the pip magic installs the listed requirements; no state
  of this model changes.\<close>

definition pip_install :: "ext \<Rightarrow> string \<Rightarrow> unit nb" where
  "pip_install x req = lib x (PipInstall req) (pure_sem ()) (\<lambda>_. VNone)"

text \<open>Modelled from the spec: dbutils.widgets.text creates a free-text widget with a
  default value; a widget that already holds a value supplied by the user keeps it.\<close>

definition dbutils_widgets_text :: "ext \<Rightarrow> string \<Rightarrow> string \<Rightarrow> string \<Rightarrow> unit nb" where
  "dbutils_widgets_text x name dflt label =
     lib x (WidgetsText name dflt label)
       (\<lambda>w. Inr ((), case widgets w name of
                        None \<Rightarrow> w\<lparr>widgets := (widgets w)(name \<mapsto> dflt)\<rparr>
                      | Some _ \<Rightarrow> w))
       (\<lambda>_. VNone)"

text \<open>Modelled from the spec: dbutils.widgets.get returns the widget's current value and
  raises for a widget that does not exist.\<close>

definition dbutils_widgets_get :: "ext \<Rightarrow> string \<Rightarrow> string nb" where
  "dbutils_widgets_get x name =
     lib x (WidgetsGet name)
       (\<lambda>w. case widgets w name of
               None \<Rightarrow> Inl (InputWidgetNotDefined name)
             | Some v \<Rightarrow> Inr (v, w))
       VStr"

text \<open>Modelled from the spec: spark.conf.set stores a value under a configuration key.\<close>

definition spark_conf_set :: "ext \<Rightarrow> string \<Rightarrow> string \<Rightarrow> unit nb" where
  "spark_conf_set x k v =
     lib x (ConfSet k v) (\<lambda>w. Inr ((), w\<lparr>conf := (conf w)(k \<mapsto> v)\<rparr>)) (\<lambda>_. VNone)"

definition print_nb :: "ext \<Rightarrow> string list \<Rightarrow> unit nb" where
  "print_nb x args = lib x (Print args) (pure_sem ()) (\<lambda>_. VNone)"

definition display :: "ext \<Rightarrow> pyvalue \<Rightarrow> unit nb" where
  "display x v = lib x (Display v) (pure_sem ()) (\<lambda>_. VNone)"

text \<open>The value of a cell's last expression, shown by the notebook.\<close>

definition cell_value :: "ext \<Rightarrow> pyvalue \<Rightarrow> unit nb" where
  "cell_value x v = lib x (CellValue v) (pure_sem ()) (\<lambda>_. VNone)"

text \<open>Modelled from the spec: dbutils.fs.ls lists the files at a path.\<close>

definition dbutils_fs_ls :: "ext \<Rightarrow> string \<Rightarrow> string list nb" where
  "dbutils_fs_ls x p = lib x (FsLs p) (pure_sem (ls x p)) VFiles"

text \<open>Modelled from the spec: Catalog.catalog maps the files discovered under a path to
  derived path attributes; the schema is the library's.\<close>

definition Catalog_catalog :: "ext \<Rightarrow> string \<Rightarrow> dataframe nb" where
  "Catalog_catalog x p = lib x (CatalogCatalog p) (pure_sem (catalog_files x p)) VDf"

text \<open>Modelled from the spec: Catalog.save persists a dataframe to the named table. Mode
  overwrite replaces what the table held; mode append adds the rows to a table of the
  same columns (or creates the table); any other mode is refused.\<close>

definition save_table :: "dataframe \<Rightarrow> string \<Rightarrow> string \<Rightarrow> world \<Rightarrow> exn + unit \<times> world" where
  "save_table df t mode w =
     (if mode = ''overwrite'' then Inr ((), w\<lparr>tables := (tables w)(t \<mapsto> df)\<rparr>)
      else if mode = ''append'' then
        (case tables w t of
           None \<Rightarrow> Inr ((), w\<lparr>tables := (tables w)(t \<mapsto> df)\<rparr>)
         | Some old \<Rightarrow>
             if columns old = columns df
             then Inr ((), w\<lparr>tables := (tables w)(t \<mapsto> old\<lparr>rows := rows old @ rows df\<rparr>)\<rparr>)
             else Inl (IllegalArgument ''schema mismatch''))
      else Inl (IllegalArgument mode))"

definition Catalog_save :: "ext \<Rightarrow> dataframe \<Rightarrow> string \<Rightarrow> string \<Rightarrow> unit nb" where
  "Catalog_save x df t mode = lib x (CatalogSave df t mode) (save_table df t mode) (\<lambda>_. VNone)"

text \<open>Modelled from the spec: reading a persisted table gives the dataframe last saved
  under that name and raises when there is none.\<close>

definition read_table :: "string \<Rightarrow> world \<Rightarrow> exn + dataframe \<times> world" where
  "read_table t w = (case tables w t of None \<Rightarrow> Inl (TableNotFound t) | Some df \<Rightarrow> Inr (df, w))"

definition Catalog_load :: "ext \<Rightarrow> string \<Rightarrow> dataframe nb" where
  "Catalog_load x t = lib x (CatalogLoad t) (read_table t) VDf"

definition spark_table :: "ext \<Rightarrow> string \<Rightarrow> dataframe nb" where
  "spark_table x t = lib x (SparkTable t) (read_table t) VDf"

text \<open>Modelled from the spec: a SQL cell names its table through a configuration
  variable, which the engine replaces by the value stored under that key; the query is
  then evaluated on the table of that name.\<close>

definition resolve :: "table_ref \<Rightarrow> world \<Rightarrow> exn + string" where
  "resolve r w = (case r of ConfVar k \<Rightarrow>
     (case conf w k of None \<Rightarrow> Inl (ConfKeyNotSet k) | Some t \<Rightarrow> Inr t))"

definition run_sql :: "ext \<Rightarrow> sql_stmt \<Rightarrow> world \<Rightarrow> exn + dataframe \<times> world" where
  "run_sql x q w =
     (case resolve (from_table q) w of
        Inl e \<Rightarrow> Inl e
      | Inr t \<Rightarrow>
         (case tables w t of
            None \<Rightarrow> Inl (TableNotFound t)
          | Some df \<Rightarrow> Inr (sql_select x (projection q) (where_clause q) (order_by q) df, w)))"

definition sql :: "ext \<Rightarrow> sql_stmt \<Rightarrow> dataframe nb" where
  "sql x q = lib x (SqlCell q) (run_sql x q) VDf"

text \<open>Modelled from the spec: count is the number of rows of a dataframe.\<close>

definition df_count :: "ext \<Rightarrow> dataframe \<Rightarrow> int nb" where
  "df_count x df = lib x (Count df) (pure_sem (int (length (rows df)))) VInt"

text \<open>Modelled from the spec: repartition redistributes the rows over n partitions and
  refuses n = 0; the rows and columns are the same, and the physical partitioning is not
  part of this model.\<close>

definition repartition :: "ext \<Rightarrow> dataframe \<Rightarrow> nat \<Rightarrow> dataframe nb" where
  "repartition x df n =
     lib x (Repartition df n)
       (\<lambda>w. if n = 0 then Inl (IllegalArgument ''numPartitions'') else Inr (df, w)) VDf"

text \<open>Modelled from the spec: filter keeps the rows on which the expression evaluates to
  true, in their order.\<close>

definition df_filter :: "ext \<Rightarrow> dataframe \<Rightarrow> string \<Rightarrow> dataframe nb" where
  "df_filter x df e =
     lib x (Filter df e)
       (pure_sem (df\<lparr>rows := filter (sql_pred x e (columns df)) (rows df)\<rparr>)) VDf"

text \<open>Modelled from the spec: limit n keeps at most n rows.\<close>

definition limit :: "ext \<Rightarrow> dataframe \<Rightarrow> nat \<Rightarrow> dataframe nb" where
  "limit x df n = lib x (Limit df n) (pure_sem (df\<lparr>rows := take n (rows df)\<rparr>)) VDf"

text \<open>Modelled from the spec: the metadata transformer returns the dataframe it is given
  augmented with a column holding a serialized-text blob of per-image metadata; the
  notebook's own text names the column meta and its format JSON.\<close>

definition DicomMetaExtractor :: "ext \<Rightarrow> unit nb" where
  "DicomMetaExtractor x = lib x NewDicomMetaExtractor (pure_sem ()) (\<lambda>_. VExtractor)"

definition add_meta :: "ext \<Rightarrow> dataframe \<Rightarrow> dataframe" where
  "add_meta x df =
     \<lparr>columns = columns df @ [''meta''],
      rows = map (\<lambda>r. r @ [dicom_meta x (columns df) r]) (rows df)\<rparr>"

definition transform :: "ext \<Rightarrow> dataframe \<Rightarrow> dataframe nb" where
  "transform x df = lib x (Transform df) (pure_sem (add_meta x df)) VDf"

text \<open>Modelled from the spec: DicomFrames wraps a dataframe with its display options;
  plotx renders one thumbnail for each row of the wrapped dataframe.\<close>

definition DicomFrames :: "ext \<Rightarrow> dataframe \<Rightarrow> bool \<Rightarrow> string \<Rightarrow> frames nb" where
  "DicomFrames x df wm ic =
     lib x (NewDicomFrames df wm ic)
       (pure_sem \<lparr>frames_df = df, with_meta = wm, input_col = ic\<rparr>) VFrames"

definition plotx :: "ext \<Rightarrow> frames \<Rightarrow> string list nb" where
  "plotx x f =
     lib x (Plotx f)
       (pure_sem (map (thumbnail x (with_meta f) (input_col f) (columns (frames_df f)))
                      (rows (frames_df f))))
       VPlots"

subsection \<open>The notebook, cell by cell\<close>

text \<open>Line 39.\<close>

definition cell_requirements :: "ext \<Rightarrow> unit nb" where
  "cell_requirements x = pip_install x ''requirements.txt''"

text \<open>Lines 44 to 51.\<close>

definition cell_params :: "ext \<Rightarrow> (string \<times> string) nb" where
  "cell_params x =
     then_nb (dbutils_widgets_text x ''path'' ''s3://hls-eng-data-public/dicom/ddsm/''
                ''1.0 Path to directory tree containing files. /dbfs or s3:// supported'') (\<lambda>_.
     then_nb (dbutils_widgets_text x ''table'' ''<catalog>.<schema>.<table>''
                ''2.0 Catalog Schema Table to store object metadata into'') (\<lambda>_.
     then_nb (dbutils_widgets_get x ''path'') (\<lambda>p.
     then_nb (dbutils_widgets_get x ''table'') (\<lambda>t.
     then_nb (spark_conf_set x ''c.table'' t) (\<lambda>_.
     then_nb (print_nb x [p, t]) (\<lambda>_.
     return_nb (p, t)))))))"

text \<open>Line 59.\<close>

definition cell_ls :: "ext \<Rightarrow> string \<Rightarrow> unit nb" where
  "cell_ls x p =
     then_nb (dbutils_fs_ls x p) (\<lambda>fs.
     display x (VFiles fs))"

text \<open>Lines 69 to 71.\<close>

definition cell_catalog :: "ext \<Rightarrow> string \<Rightarrow> dataframe nb" where
  "cell_catalog x p =
     then_nb (Catalog_catalog x p) (\<lambda>df.
     then_nb (display x (VDf df)) (\<lambda>_.
     return_nb df))"

text \<open>Line 80.\<close>

definition cell_save :: "ext \<Rightarrow> dataframe \<Rightarrow> string \<Rightarrow> unit nb" where
  "cell_save x df t = Catalog_save x df t ''overwrite''"

text \<open>Line 84.\<close>

definition sql_count_star :: sql_stmt where
  "sql_count_star =
     \<lparr>projection = ''count(*)'', from_table = ConfVar ''c.table'',
      where_clause = None, order_by = None\<rparr>"

definition cell_sql_count_star :: "ext \<Rightarrow> dataframe nb" where
  "cell_sql_count_star x = sql x sql_count_star"

text \<open>Lines 92 to 94.\<close>

definition cell_load :: "ext \<Rightarrow> string \<Rightarrow> dataframe nb" where
  "cell_load x t =
     then_nb (Catalog_load x t) (\<lambda>df.
     then_nb (display x (VDf df)) (\<lambda>_.
     return_nb df))"

text \<open>Line 98.\<close>

definition cell_count :: "ext \<Rightarrow> dataframe \<Rightarrow> int nb" where
  "cell_count x df = df_count x df"

text \<open>Lines 112 to 116.\<close>

definition cell_extract :: "ext \<Rightarrow> dataframe \<Rightarrow> string \<Rightarrow> dataframe nb" where
  "cell_extract x df t =
     then_nb (DicomMetaExtractor x) (\<lambda>_.
     then_nb (repartition x df 10000) (\<lambda>rp.
     then_nb (transform x rp) (\<lambda>m.
     then_nb (Catalog_save x m t ''overwrite'') (\<lambda>_.
     then_nb (spark_table x t) (\<lambda>tb.
     then_nb (display x (VDf tb)) (\<lambda>_.
     return_nb m))))))"

text \<open>Lines 128 to 129.\<close>

definition sql_count_one :: sql_stmt where
  "sql_count_one =
     \<lparr>projection = ''count(1)'', from_table = ConfVar ''c.table'',
      where_clause = None, order_by = None\<rparr>"

text \<open>Lines 133 to 135.\<close>

definition sql_patients :: sql_stmt where
  "sql_patients =
     \<lparr>projection = ''meta:['00100010'].Value[0].Alphabetic as patient_name, meta:hash, meta:img_min, meta:img_max, path, meta'',
      from_table = ConfVar ''c.table'',
      where_clause = None, order_by = None\<rparr>"

text \<open>Lines 140 to 144.\<close>

definition sql_patient7747 :: sql_stmt where
  "sql_patient7747 =
     \<lparr>projection = ''rowid, meta:hash, meta:['00100010'].Value[0].Alphabetic as patient_name, meta:img_min, meta:img_max, path, meta'',
      from_table = ConfVar ''c.table'',
      where_clause = Some ''array_contains( path_tags, 'patient7747' )'',
      order_by = Some ''patient_name''\<rparr>"

definition cell_analyze :: "ext \<Rightarrow> dataframe nb" where
  "cell_analyze x =
     then_nb (sql x sql_count_one) (\<lambda>_.
     then_nb (sql x sql_patients) (\<lambda>_.
     sql x sql_patient7747))"

text \<open>Lines 152 to 154.\<close>

definition cell_filter :: "ext \<Rightarrow> string \<Rightarrow> dataframe nb" where
  "cell_filter x t =
     then_nb (Catalog_load x t) (\<lambda>ld.
     then_nb (df_filter x ld ''meta:img_max < 1000'') (\<lambda>fl.
     then_nb (repartition x fl 1000) (\<lambda>rp.
     then_nb (df_count x rp) (\<lambda>_.
     return_nb rp))))"

text \<open>Lines 162 to 167.\<close>

definition cell_plot :: "ext \<Rightarrow> dataframe \<Rightarrow> string list nb" where
  "cell_plot x df =
     then_nb (limit x df 100) (\<lambda>lm.
     then_nb (DicomFrames x lm True ''local_path'') (\<lambda>fr.
     then_nb (plotx x fr) (\<lambda>ps.
     then_nb (cell_value x (VPlots ps)) (\<lambda>_.
     return_nb ps))))"

text \<open>The whole notebook, run from its first cell to its last; the result is the
  binding of its Python variables at the end.\<close>

definition notebook :: "ext \<Rightarrow> vars nb" where
  "notebook x =
     then_nb (cell_requirements x) (\<lambda>_.
     then_nb (cell_params x) (\<lambda>(p, t).
     then_nb (cell_ls x p) (\<lambda>_.
     then_nb (cell_catalog x p) (\<lambda>c0.
     then_nb (cell_save x c0 t) (\<lambda>_.
     then_nb (cell_sql_count_star x) (\<lambda>_.
     then_nb (cell_load x t) (\<lambda>c1.
     then_nb (cell_count x c1) (\<lambda>_.
     then_nb (cell_extract x c1 t) (\<lambda>m.
     then_nb (cell_analyze x) (\<lambda>_.
     then_nb (cell_filter x t) (\<lambda>f.
     then_nb (cell_plot x f) (\<lambda>ps.
     return_nb \<lparr>path = p, table = t, catalog_df = c1, meta_df = m,
                dcm_df_filtered = f, plots = ps\<rparr>))))))))))))"

definition run :: "ext \<Rightarrow> world \<Rightarrow> (exn + vars) \<times> world \<times> event list" where
  "run x w = notebook x (w, [])"

definition result_of :: "(exn + vars) \<times> world \<times> event list \<Rightarrow> exn + vars" where
  "result_of r = fst r"

definition world_of :: "(exn + vars) \<times> world \<times> event list \<Rightarrow> world" where
  "world_of r = fst (snd r)"

definition trace_of :: "(exn + vars) \<times> world \<times> event list \<Rightarrow> event list" where
  "trace_of r = snd (snd r)"

subsection \<open>The two parameters\<close>

text \<open>The value a widget yields after lines 44 and 45: what the user typed, or the
  default of the declaration.\<close>

definition path_param :: "world \<Rightarrow> string" where
  "path_param w =
     (case widgets w ''path'' of None \<Rightarrow> ''s3://hls-eng-data-public/dicom/ddsm/'' | Some v \<Rightarrow> v)"

definition table_param :: "world \<Rightarrow> string" where
  "table_param w =
     (case widgets w ''table'' of None \<Rightarrow> ''<catalog>.<schema>.<table>'' | Some v \<Rightarrow> v)"

subsection \<open>Reading a trace\<close>

fun call_name :: "call \<Rightarrow> string" where
  "call_name (PipInstall _) = ''%pip install''"
| "call_name (WidgetsText _ _ _) = ''dbutils.widgets.text''"
| "call_name (WidgetsGet _) = ''dbutils.widgets.get''"
| "call_name (ConfSet _ _) = ''spark.conf.set''"
| "call_name (Print _) = ''print''"
| "call_name (FsLs _) = ''dbutils.fs.ls''"
| "call_name (Display _) = ''display''"
| "call_name (CatalogCatalog _) = ''Catalog.catalog''"
| "call_name (CatalogSave _ _ _) = ''Catalog.save''"
| "call_name (SqlCell _) = ''%sql''"
| "call_name (CatalogLoad _) = ''Catalog.load''"
| "call_name (Count _) = ''count''"
| "call_name NewDicomMetaExtractor = ''DicomMetaExtractor''"
| "call_name (Repartition _ _) = ''repartition''"
| "call_name (Transform _) = ''transform''"
| "call_name (SparkTable _) = ''spark.table''"
| "call_name (Filter _ _) = ''filter''"
| "call_name (Limit _ _) = ''limit''"
| "call_name (NewDicomFrames _ _ _) = ''DicomFrames''"
| "call_name (Plotx _) = ''plotx''"
| "call_name (CellValue _) = ''cell value''"

definition names :: "event list \<Rightarrow> string list" where
  "names tr = map (call_name \<circ> fst) tr"

text \<open>The calls of the file, top to bottom.\<close>

definition script :: "string list" where
  "script =
     [''%pip install'',
      ''dbutils.widgets.text'', ''dbutils.widgets.text'',
      ''dbutils.widgets.get'', ''dbutils.widgets.get'',
      ''spark.conf.set'', ''print'',
      ''dbutils.fs.ls'', ''display'',
      ''Catalog.catalog'', ''display'',
      ''Catalog.save'',
      ''%sql'',
      ''Catalog.load'', ''display'',
      ''count'',
      ''DicomMetaExtractor'', ''repartition'', ''transform'', ''Catalog.save'',
      ''spark.table'', ''display'',
      ''%sql'', ''%sql'', ''%sql'',
      ''Catalog.load'', ''filter'', ''repartition'', ''count'',
      ''limit'', ''DicomFrames'', ''plotx'', ''cell value'']"

text \<open>The operations the overview speaks of, and the call that performs each. Calls
  that only show a value, count, construct an object, repartition or limit are none of
  them.\<close>

datatype operation =
    ReadConfig | ListFiles | CatalogFiles | Persist | Reload | ExtractMeta
  | Query | FilterRows | Plot

fun op_of :: "call \<Rightarrow> operation option" where
  "op_of (WidgetsGet _) = Some ReadConfig"
| "op_of (FsLs _) = Some ListFiles"
| "op_of (CatalogCatalog _) = Some CatalogFiles"
| "op_of (CatalogSave _ _ _) = Some Persist"
| "op_of (CatalogLoad _) = Some Reload"
| "op_of (SparkTable _) = Some Reload"
| "op_of (Transform _) = Some ExtractMeta"
| "op_of (SqlCell _) = Some Query"
| "op_of (Filter _ _) = Some FilterRows"
| "op_of (Plotx _) = Some Plot"
| "op_of _ = None"

text \<open>The operations of a trace in order, a run of the same operation counted once
  (the two widget reads are one reading of the configuration, the three queries in a row
  are one querying).\<close>

definition operations :: "event list \<Rightarrow> operation list" where
  "operations tr = remdups_adj (List.map_filter (op_of \<circ> fst) tr)"

text \<open>The sequence in the words of the overview: configuration, listing, cataloging,
  persisting, reloading, metadata extraction, persisting again, queries, filtering,
  plotting.\<close>

definition spec_sequence :: "operation list" where
  "spec_sequence =
     [ReadConfig, ListFiles, CatalogFiles, Persist, Reload, ExtractMeta, Persist,
      Query, FilterRows, Plot]"

text \<open>The sequence of the file: line 84 queries the table before line 93 reloads it,
  line 116 reads the table back, and line 153 reloads it once more before filtering.\<close>

definition file_sequence :: "operation list" where
  "file_sequence =
     [ReadConfig, ListFiles, CatalogFiles, Persist, Query, Reload, ExtractMeta, Persist,
      Reload, Query, Reload, FilterRows, Plot]"

fun widget_read :: "call \<Rightarrow> string option" where
  "widget_read (WidgetsGet n) = Some n"
| "widget_read _ = None"

definition widget_reads :: "event list \<Rightarrow> string list" where
  "widget_reads tr = List.map_filter (widget_read \<circ> fst) tr"

fun widget_decl :: "call \<Rightarrow> string option" where
  "widget_decl (WidgetsText n _ _) = Some n"
| "widget_decl _ = None"

definition widget_decls :: "event list \<Rightarrow> string list" where
  "widget_decls tr = List.map_filter (widget_decl \<circ> fst) tr"

text \<open>The table a persistence call names, the configuration variable a SQL cell names,
  and the configuration keys written.\<close>

fun table_arg :: "call \<Rightarrow> string option" where
  "table_arg (CatalogSave _ t _) = Some t"
| "table_arg (CatalogLoad t) = Some t"
| "table_arg (SparkTable t) = Some t"
| "table_arg _ = None"

definition table_args :: "event list \<Rightarrow> string list" where
  "table_args tr = List.map_filter (table_arg \<circ> fst) tr"

fun sql_ref :: "call \<Rightarrow> table_ref option" where
  "sql_ref (SqlCell q) = Some (from_table q)"
| "sql_ref _ = None"

definition sql_refs :: "event list \<Rightarrow> table_ref list" where
  "sql_refs tr = List.map_filter (sql_ref \<circ> fst) tr"

fun conf_set :: "call \<Rightarrow> (string \<times> string) option" where
  "conf_set (ConfSet k v) = Some (k, v)"
| "conf_set _ = None"

definition conf_sets :: "event list \<Rightarrow> (string \<times> string) list" where
  "conf_sets tr = List.map_filter (conf_set \<circ> fst) tr"

fun save_mode :: "call \<Rightarrow> string option" where
  "save_mode (CatalogSave _ _ m) = Some m"
| "save_mode _ = None"

text \<open>The data a call is handed: everything among its arguments that is not a literal
  of the file.\<close>

fun args_of :: "call \<Rightarrow> pyvalue list" where
  "args_of (PipInstall _) = []"
| "args_of (WidgetsText _ _ _) = []"
| "args_of (WidgetsGet _) = []"
| "args_of (ConfSet _ v) = [VStr v]"
| "args_of (Print ss) = map VStr ss"
| "args_of (FsLs p) = [VStr p]"
| "args_of (Display v) = [v]"
| "args_of (CatalogCatalog p) = [VStr p]"
| "args_of (CatalogSave df t _) = [VDf df, VStr t]"
| "args_of (SqlCell _) = []"
| "args_of (CatalogLoad t) = [VStr t]"
| "args_of (Count df) = [VDf df]"
| "args_of NewDicomMetaExtractor = []"
| "args_of (Repartition df _) = [VDf df]"
| "args_of (Transform df) = [VDf df]"
| "args_of (SparkTable t) = [VStr t]"
| "args_of (Filter df _) = [VDf df]"
| "args_of (Limit df _) = [VDf df]"
| "args_of (NewDicomFrames df _ _) = [VDf df]"
| "args_of (Plotx f) = [VFrames f]"
| "args_of (CellValue v) = [v]"

text \<open>A trace passes data on and computes none: each datum handed to a call is, as it
  stands, the value an earlier call returned.\<close>

fun passes_on :: "pyvalue list \<Rightarrow> event list \<Rightarrow> bool" where
  "passes_on seen [] = True"
| "passes_on seen ((c, out) # tr) =
     (list_all (\<lambda>a. a \<in> set seen) (args_of c) \<and>
      passes_on (case out of Returned v \<Rightarrow> v # seen | Raised _ \<Rightarrow> seen) tr)"

fun returned :: "event \<Rightarrow> bool" where
  "returned (_, Returned _) = True"
| "returned (_, Raised _) = False"

text \<open>The arguments a call is given as literals of the file: names, defaults and
  labels, the configuration key, the save mode, the SQL texts, the partition numbers, the
  filter expression, the limit and the display options. Together with \<open>args_of\<close> they
  are all the arguments of a call.\<close>

datatype literal = LStr string | LNat nat | LBool bool | LSql sql_stmt

fun literals_of :: "call \<Rightarrow> literal list" where
  "literals_of (PipInstall r) = [LStr r]"
| "literals_of (WidgetsText n d l) = [LStr n, LStr d, LStr l]"
| "literals_of (WidgetsGet n) = [LStr n]"
| "literals_of (ConfSet k _) = [LStr k]"
| "literals_of (Print _) = []"
| "literals_of (FsLs _) = []"
| "literals_of (Display _) = []"
| "literals_of (CatalogCatalog _) = []"
| "literals_of (CatalogSave _ _ m) = [LStr m]"
| "literals_of (SqlCell q) = [LSql q]"
| "literals_of (CatalogLoad _) = []"
| "literals_of (Count _) = []"
| "literals_of NewDicomMetaExtractor = []"
| "literals_of (Repartition _ n) = [LNat n]"
| "literals_of (Transform _) = []"
| "literals_of (SparkTable _) = []"
| "literals_of (Filter _ e) = [LStr e]"
| "literals_of (Limit _ n) = [LNat n]"
| "literals_of (NewDicomFrames _ wm ic) = [LBool wm, LStr ic]"
| "literals_of (Plotx _) = []"
| "literals_of (CellValue _) = []"

definition literals :: "event list \<Rightarrow> literal list" where
  "literals tr = concat (map (literals_of \<circ> fst) tr)"

text \<open>The literals of the file, top to bottom.\<close>

definition file_literals :: "literal list" where
  "file_literals =
     [LStr ''requirements.txt'',
      LStr ''path'', LStr ''s3://hls-eng-data-public/dicom/ddsm/'',
      LStr ''1.0 Path to directory tree containing files. /dbfs or s3:// supported'',
      LStr ''table'', LStr ''<catalog>.<schema>.<table>'',
      LStr ''2.0 Catalog Schema Table to store object metadata into'',
      LStr ''path'', LStr ''table'', LStr ''c.table'',
      LStr ''overwrite'',
      LSql sql_count_star,
      LNat 10000, LStr ''overwrite'',
      LSql sql_count_one, LSql sql_patients, LSql sql_patient7747,
      LStr ''meta:img_max < 1000'', LNat 1000,
      LNat 100, LBool True, LStr ''local_path'']"

text \<open>The values the calls of a trace returned, and the values the variables of the
  notebook are bound to at its end.\<close>

fun returned_value :: "event \<Rightarrow> pyvalue option" where
  "returned_value (_, Returned v) = Some v"
| "returned_value (_, Raised _) = None"

definition returns :: "event list \<Rightarrow> pyvalue list" where
  "returns tr = List.map_filter returned_value tr"

definition bindings :: "vars \<Rightarrow> pyvalue list" where
  "bindings v =
     [VStr (path v), VStr (table v), VDf (catalog_df v), VDf (meta_df v),
      VDf (dcm_df_filtered v), VPlots (plots v)]"

subsection \<open>A run in which no call fails, and every other run from it\<close>

definition silent :: "ext \<Rightarrow> ext" where
  "silent x = x\<lparr>fails := (\<lambda>_ _. None)\<rparr>"

text \<open>The dataframes of such a run.\<close>

definition extracted :: "ext \<Rightarrow> string \<Rightarrow> dataframe" where
  "extracted x p = add_meta x (catalog_files x p)"

definition kept :: "ext \<Rightarrow> string \<Rightarrow> dataframe" where
  "kept x p =
     (extracted x p)\<lparr>rows :=
        filter (sql_pred x ''meta:img_max < 1000'' (columns (extracted x p)))
               (rows (extracted x p))\<rparr>"

definition shown :: "ext \<Rightarrow> string \<Rightarrow> dataframe" where
  "shown x p = (kept x p)\<lparr>rows := take 100 (rows (kept x p))\<rparr>"

definition thumbs :: "ext \<Rightarrow> string \<Rightarrow> string list" where
  "thumbs x p = map (thumbnail x True ''local_path'' (columns (shown x p))) (rows (shown x p))"

definition quiet_vars :: "ext \<Rightarrow> string \<Rightarrow> string \<Rightarrow> vars" where
  "quiet_vars x p t =
     \<lparr>path = p, table = t, catalog_df = catalog_files x p, meta_df = extracted x p,
      dcm_df_filtered = kept x p, plots = thumbs x p\<rparr>"

definition quiet_world :: "ext \<Rightarrow> world \<Rightarrow> world" where
  "quiet_world x w =
     w\<lparr>widgets := (widgets w)(''path'' \<mapsto> path_param w, ''table'' \<mapsto> table_param w),
       conf := (conf w)(''c.table'' \<mapsto> table_param w),
       tables := (tables w)(table_param w \<mapsto> extracted x (path_param w))\<rparr>"

definition quiet_trace :: "ext \<Rightarrow> string \<Rightarrow> string \<Rightarrow> event list" where
  "quiet_trace x p t =
     [(PipInstall ''requirements.txt'', Returned VNone),
      (WidgetsText ''path'' ''s3://hls-eng-data-public/dicom/ddsm/''
         ''1.0 Path to directory tree containing files. /dbfs or s3:// supported'',
       Returned VNone),
      (WidgetsText ''table'' ''<catalog>.<schema>.<table>''
         ''2.0 Catalog Schema Table to store object metadata into'',
       Returned VNone),
      (WidgetsGet ''path'', Returned (VStr p)),
      (WidgetsGet ''table'', Returned (VStr t)),
      (ConfSet ''c.table'' t, Returned VNone),
      (Print [p, t], Returned VNone),
      (FsLs p, Returned (VFiles (ls x p))),
      (Display (VFiles (ls x p)), Returned VNone),
      (CatalogCatalog p, Returned (VDf (catalog_files x p))),
      (Display (VDf (catalog_files x p)), Returned VNone),
      (CatalogSave (catalog_files x p) t ''overwrite'', Returned VNone),
      (SqlCell sql_count_star,
       Returned (VDf (sql_select x (projection sql_count_star) None None (catalog_files x p)))),
      (CatalogLoad t, Returned (VDf (catalog_files x p))),
      (Display (VDf (catalog_files x p)), Returned VNone),
      (Count (catalog_files x p), Returned (VInt (int (length (rows (catalog_files x p)))))),
      (NewDicomMetaExtractor, Returned VExtractor),
      (Repartition (catalog_files x p) 10000, Returned (VDf (catalog_files x p))),
      (Transform (catalog_files x p), Returned (VDf (extracted x p))),
      (CatalogSave (extracted x p) t ''overwrite'', Returned VNone),
      (SparkTable t, Returned (VDf (extracted x p))),
      (Display (VDf (extracted x p)), Returned VNone),
      (SqlCell sql_count_one,
       Returned (VDf (sql_select x (projection sql_count_one) None None (extracted x p)))),
      (SqlCell sql_patients,
       Returned (VDf (sql_select x (projection sql_patients) None None (extracted x p)))),
      (SqlCell sql_patient7747,
       Returned (VDf (sql_select x (projection sql_patient7747)
                        (where_clause sql_patient7747) (order_by sql_patient7747)
                        (extracted x p)))),
      (CatalogLoad t, Returned (VDf (extracted x p))),
      (Filter (extracted x p) ''meta:img_max < 1000'', Returned (VDf (kept x p))),
      (Repartition (kept x p) 1000, Returned (VDf (kept x p))),
      (Count (kept x p), Returned (VInt (int (length (rows (kept x p)))))),
      (Limit (kept x p) 100, Returned (VDf (shown x p))),
      (NewDicomFrames (shown x p) True ''local_path'',
       Returned (VFrames \<lparr>frames_df = shown x p, with_meta = True, input_col = ''local_path''\<rparr>)),
      (Plotx \<lparr>frames_df = shown x p, with_meta = True, input_col = ''local_path''\<rparr>,
       Returned (VPlots (thumbs x p))),
      (CellValue (VPlots (thumbs x p)), Returned VNone)]"

text \<open>Going through the events of a silent run with the failures of \<open>x\<close>: the first
  call that fails ends the trace with its exception.\<close>

fun replay :: "ext \<Rightarrow> nat \<Rightarrow> event list \<Rightarrow> event list \<times> exn option" where
  "replay x i [] = ([], None)"
| "replay x i ((c, out) # evs) =
     (case fails x i c of
        Some e \<Rightarrow> ([(c, Raised e)], Some e)
      | None \<Rightarrow> (case replay x (Suc i) evs of (tr, r) \<Rightarrow> ((c, out) # tr, r)))"

definition sim :: "ext \<Rightarrow> 'a nb \<Rightarrow> 'a nb \<Rightarrow> bool" where
  "sim x m m0 =
     (\<forall>w tr tr0 r0 w0 tr0'.
        length tr = length tr0 \<longrightarrow> m0 (w, tr0) = (r0, w0, tr0') \<longrightarrow>
        (\<exists>new. tr0' = tr0 @ new \<and>
           (snd (replay x (length tr) new) = None \<longrightarrow> m (w, tr) = (r0, w0, tr @ new)) \<and>
           (\<forall>e. snd (replay x (length tr) new) = Some e \<longrightarrow>
                (\<exists>w'. m (w, tr) = (Inl e, w', tr @ fst (replay x (length tr) new))))))"

subsection \<open>Two concrete worlds\<close>

definition demo_ext :: ext where
  "demo_ext =
     \<lparr>fails = (\<lambda>_ _. None),
      ls = (\<lambda>p. [p @ ''a.dcm'', p @ ''b.dcm'']),
      catalog_files = (\<lambda>p. \<lparr>columns = [''path'', ''local_path''],
                              rows = [ [p @ ''a.dcm'', ''/a.dcm''], [p @ ''b.dcm'', ''/b.dcm'']]\<rparr>),
      dicom_meta = (\<lambda>cols r. if last r = ''/a.dcm'' then ''500'' else ''2000''),
      sql_select = (\<lambda>proj wh ob df. df),
      sql_pred = (\<lambda>e cols r. last r = ''500''),
      thumbnail = (\<lambda>wm ic cols r. ''png:'' @ hd r)\<rparr>"

definition demo_world :: world where
  "demo_world =
     \<lparr>widgets = [''path'' \<mapsto> ''/d/'', ''table'' \<mapsto> ''c.s.t''],
      conf = Map.empty, tables = Map.empty\<rparr>"

text \<open>A storage of 101 files, all of which pass the filter.\<close>

definition many_ext :: ext where
  "many_ext =
     demo_ext\<lparr>catalog_files := (\<lambda>p. \<lparr>columns = [''path'', ''local_path''],
                                       rows = replicate 101 [p, ''/a.dcm'']\<rparr>)\<rparr>"

text \<open>The load at line 93 fails.\<close>

definition failing_ext :: ext where
  "failing_ext =
     demo_ext\<lparr>fails := (\<lambda>n c. if n = 13 then Some (LibraryError ''table is gone'') else None)\<rparr>"

text \<open>The same two parameters in a world that differs in everything else: another
  widget, an old configuration value, tables left over from earlier runs.\<close>

definition other_world :: world where
  "other_world =
     \<lparr>widgets = [''path'' \<mapsto> ''/d/'', ''table'' \<mapsto> ''c.s.t'', ''extra'' \<mapsto> ''1''],
      conf = [''c.table'' \<mapsto> ''old.table''],
      tables = [''c.s.t'' \<mapsto> \<lparr>columns = [''stale''], rows = [ [''x'']]\<rparr>,
                ''old.table'' \<mapsto> \<lparr>columns = [''kept''], rows = [ [''y'']]\<rparr>]\<rparr>"

section \<open>Every run from the silent run\<close>


lemmas prim_defs = pip_install_def dbutils_widgets_text_def dbutils_widgets_get_def
  spark_conf_set_def print_nb_def display_def cell_value_def dbutils_fs_ls_def
  Catalog_catalog_def Catalog_save_def Catalog_load_def spark_table_def sql_def
  df_count_def repartition_def df_filter_def limit_def DicomMetaExtractor_def
  transform_def DicomFrames_def plotx_def

lemma lib_silent:
  "lib (silent x) c sem wrap (w, tr) =
     (case sem w of Inl e \<Rightarrow> (Inl e, w, tr @ [(c, Raised e)])
      | Inr (a, w') \<Rightarrow> (Inr a, w', tr @ [(c, Returned (wrap a))]))"
  by (simp add: lib_def silent_def)

lemma silent_fields [simp]:
  "ls (silent x) = ls x" "catalog_files (silent x) = catalog_files x"
  "dicom_meta (silent x) = dicom_meta x" "sql_select (silent x) = sql_select x"
  "sql_pred (silent x) = sql_pred x" "thumbnail (silent x) = thumbnail x"
  by (simp_all add: silent_def)

lemma add_meta_silent [simp]: "add_meta (silent x) = add_meta x"
  by (rule ext) (simp add: add_meta_def)

lemma then_nb_Inr: "m s = (Inr a, s') \<Longrightarrow> then_nb m f s = f a s'"
  by (simp add: then_nb_def)

lemma quiet_requirements:
  "cell_requirements (silent x) (w, tr) = (Inr (), w, tr @ [(PipInstall ''requirements.txt'', Returned VNone)])"
  by (simp add: cell_requirements_def pip_install_def lib_silent pure_sem_def)

lemma quiet_params:
  "cell_params (silent x) (w, tr) =
     (Inr (path_param w, table_param w),
      w\<lparr>widgets := (widgets w)(''path'' \<mapsto> path_param w, ''table'' \<mapsto> table_param w),
        conf := (conf w)(''c.table'' \<mapsto> table_param w)\<rparr>,
      tr @ take 6 (drop 1 (quiet_trace x (path_param w) (table_param w))))"
  apply (simp add: cell_params_def prim_defs lib_silent pure_sem_def then_nb_def return_nb_def quiet_trace_def path_param_def table_param_def split: option.splits)
  apply (auto simp: fun_upd_idem fun_upd_twist)
  done


lemmas quiet_simps = prim_defs lib_silent pure_sem_def then_nb_def return_nb_def

lemma quiet_ls:
  "cell_ls (silent x) p (w, tr) =
     (Inr (), w, tr @ [(FsLs p, Returned (VFiles (ls x p))), (Display (VFiles (ls x p)), Returned VNone)])"
  by (simp add: cell_ls_def quiet_simps)

lemma quiet_catalog:
  "cell_catalog (silent x) p (w, tr) =
     (Inr (catalog_files x p), w,
      tr @ [(CatalogCatalog p, Returned (VDf (catalog_files x p))),
            (Display (VDf (catalog_files x p)), Returned VNone)])"
  by (simp add: cell_catalog_def quiet_simps)

lemma quiet_save:
  "cell_save (silent x) df t (w, tr) =
     (Inr (), w\<lparr>tables := (tables w)(t \<mapsto> df)\<rparr>,
      tr @ [(CatalogSave df t ''overwrite'', Returned VNone)])"
  by (simp add: cell_save_def save_table_def quiet_simps)

lemma quiet_sql:
  "conf w ''c.table'' = Some t \<Longrightarrow> tables w t = Some df \<Longrightarrow> from_table q = ConfVar ''c.table'' \<Longrightarrow>
   sql (silent x) q (w, tr) =
     (Inr (sql_select x (projection q) (where_clause q) (order_by q) df), w,
      tr @ [(SqlCell q, Returned (VDf (sql_select x (projection q) (where_clause q) (order_by q) df)))])"
  by (simp add: run_sql_def resolve_def quiet_simps)

lemma quiet_load:
  "tables w t = Some df \<Longrightarrow>
   cell_load (silent x) t (w, tr) =
     (Inr df, w, tr @ [(CatalogLoad t, Returned (VDf df)), (Display (VDf df), Returned VNone)])"
  by (simp add: cell_load_def read_table_def quiet_simps)

lemma quiet_count:
  "cell_count (silent x) df (w, tr) =
     (Inr (int (length (rows df))), w, tr @ [(Count df, Returned (VInt (int (length (rows df)))))])"
  by (simp add: cell_count_def quiet_simps)

lemma quiet_extract:
  "cell_extract (silent x) df t (w, tr) =
     (Inr (add_meta x df), w\<lparr>tables := (tables w)(t \<mapsto> add_meta x df)\<rparr>,
      tr @ [(NewDicomMetaExtractor, Returned VExtractor),
            (Repartition df 10000, Returned (VDf df)),
            (Transform df, Returned (VDf (add_meta x df))),
            (CatalogSave (add_meta x df) t ''overwrite'', Returned VNone),
            (SparkTable t, Returned (VDf (add_meta x df))),
            (Display (VDf (add_meta x df)), Returned VNone)])"
  by (simp add: cell_extract_def save_table_def read_table_def quiet_simps)

lemma quiet_analyze:
  "conf w ''c.table'' = Some t \<Longrightarrow> tables w t = Some df \<Longrightarrow>
   cell_analyze (silent x) (w, tr) =
     (Inr (sql_select x (projection sql_patient7747) (where_clause sql_patient7747)
             (order_by sql_patient7747) df), w,
      tr @ [(SqlCell sql_count_one, Returned (VDf (sql_select x (projection sql_count_one) None None df))),
            (SqlCell sql_patients, Returned (VDf (sql_select x (projection sql_patients) None None df))),
            (SqlCell sql_patient7747,
             Returned (VDf (sql_select x (projection sql_patient7747)
                        (where_clause sql_patient7747) (order_by sql_patient7747) df)))])"
  by (simp add: cell_analyze_def then_nb_def quiet_sql sql_count_one_def sql_patients_def sql_patient7747_def)

lemma quiet_filter:
  "tables w t = Some df \<Longrightarrow>
   cell_filter (silent x) t (w, tr) =
     (Inr (df\<lparr>rows := filter (sql_pred x ''meta:img_max < 1000'' (columns df)) (rows df)\<rparr>), w,
      tr @ [(CatalogLoad t, Returned (VDf df)),
            (Filter df ''meta:img_max < 1000'',
             Returned (VDf (df\<lparr>rows := filter (sql_pred x ''meta:img_max < 1000'' (columns df)) (rows df)\<rparr>))),
            (Repartition (df\<lparr>rows := filter (sql_pred x ''meta:img_max < 1000'' (columns df)) (rows df)\<rparr>) 1000,
             Returned (VDf (df\<lparr>rows := filter (sql_pred x ''meta:img_max < 1000'' (columns df)) (rows df)\<rparr>))),
            (Count (df\<lparr>rows := filter (sql_pred x ''meta:img_max < 1000'' (columns df)) (rows df)\<rparr>),
             Returned (VInt (int (length (filter (sql_pred x ''meta:img_max < 1000'' (columns df)) (rows df))))))])"
  by (simp add: cell_filter_def read_table_def quiet_simps)

lemma quiet_plot:
  "cell_plot (silent x) df (w, tr) =
     (Inr (map (thumbnail x True ''local_path'' (columns df)) (take 100 (rows df))), w,
      tr @ [(Limit df 100, Returned (VDf (df\<lparr>rows := take 100 (rows df)\<rparr>))),
            (NewDicomFrames (df\<lparr>rows := take 100 (rows df)\<rparr>) True ''local_path'',
             Returned (VFrames \<lparr>frames_df = df\<lparr>rows := take 100 (rows df)\<rparr>, with_meta = True, input_col = ''local_path''\<rparr>)),
            (Plotx \<lparr>frames_df = df\<lparr>rows := take 100 (rows df)\<rparr>, with_meta = True, input_col = ''local_path''\<rparr>,
             Returned (VPlots (map (thumbnail x True ''local_path'' (columns df)) (take 100 (rows df))))),
            (CellValue (VPlots (map (thumbnail x True ''local_path'' (columns df)) (take 100 (rows df)))), Returned VNone)])"
  by (simp add: cell_plot_def quiet_simps)

lemma quiet_run:
  "run (silent x) w =
     (Inr (quiet_vars x (path_param w) (table_param w)), quiet_world x w,
      quiet_trace x (path_param w) (table_param w))"
  unfolding run_def notebook_def
  apply (simp add: then_nb_def quiet_requirements quiet_params quiet_ls quiet_catalog quiet_save
      quiet_count quiet_extract quiet_plot
      cell_sql_count_star_def cell_load_def cell_analyze_def cell_filter_def
      run_sql_def resolve_def read_table_def quiet_simps
      sql_count_star_def sql_count_one_def sql_patients_def sql_patient7747_def)
  apply (simp add: quiet_vars_def quiet_world_def quiet_trace_def kept_def shown_def thumbs_def extracted_def
      sql_count_star_def sql_count_one_def sql_patients_def sql_patient7747_def)
  done


lemma replay_None: "replay x i evs = (tr, None) \<Longrightarrow> tr = evs"
  by (induction evs arbitrary: i tr) (auto split: option.splits prod.splits)

lemma replay_append:
  "replay x i (xs @ ys) =
     (case replay x i xs of
        (xs', Some e) \<Rightarrow> (xs', Some e)
      | (xs', None) \<Rightarrow> (case replay x (i + length xs) ys of (ys', r) \<Rightarrow> (xs @ ys', r)))"
proof (induction xs arbitrary: i)
  case Nil
  then show ?case by (simp split: prod.splits)
next
  case (Cons ev xs)
  obtain c out where ev: "ev = (c, out)" by (cases ev)
  show ?case
  proof (cases "fails x i c")
    case None
    show ?thesis
      using Cons.IH [of "Suc i"] None ev
      by (auto split: prod.splits option.splits dest: replay_None)
  next
    case (Some e)
    then show ?thesis using ev by simp
  qed
qed

lemma sim_return: "sim x (return_nb a) (return_nb a)"
  by (auto simp: sim_def return_nb_def)

lemma sim_lib: "sim x (lib x c sem wrap) (lib (silent x) c sem wrap)"
  unfolding sim_def
  by (auto simp: lib_def silent_def split: sum.splits option.splits prod.splits)

lemma simD:
  assumes "sim x m m0" and "length tr = length tr0" and "m0 (w, tr0) = (r0, w0, tr0')"
  obtains new where "tr0' = tr0 @ new"
    and "snd (replay x (length tr) new) = None \<Longrightarrow> m (w, tr) = (r0, w0, tr @ new)"
    and "\<And>e. snd (replay x (length tr) new) = Some e \<Longrightarrow>
           \<exists>w'. m (w, tr) = (Inl e, w', tr @ fst (replay x (length tr) new))"
  using assms unfolding sim_def by blast

lemma sim_then:
  assumes m: "sim x m m0" and f: "\<And>a. sim x (f a) (f0 a)"
  shows "sim x (then_nb m f) (then_nb m0 f0)"
  unfolding sim_def
proof (intro allI impI)
  fix w :: world and tr tr0 :: "event list" and r w' tr'
  assume len: "length tr = length tr0"
    and run0: "then_nb m0 f0 (w, tr0) = (r, w', tr')"
  obtain r0 w0 tr0' where m0: "m0 (w, tr0) = (r0, w0, tr0')" by (cases "m0 (w, tr0)")
  from simD [OF m len m0] obtain new1 where
    new1: "tr0' = tr0 @ new1" and
    ok1: "snd (replay x (length tr) new1) = None \<Longrightarrow> m (w, tr) = (r0, w0, tr @ new1)" and
    ko1: "\<And>e. snd (replay x (length tr) new1) = Some e \<Longrightarrow>
           \<exists>w'. m (w, tr) = (Inl e, w', tr @ fst (replay x (length tr) new1))"
    by blast
  obtain n1 o1 where r1: "replay x (length tr) new1 = (n1, o1)"
    by (cases "replay x (length tr) new1")
  show "\<exists>new. tr' = tr0 @ new \<and>
           (snd (replay x (length tr) new) = None \<longrightarrow> then_nb m f (w, tr) = (r, w', tr @ new)) \<and>
           (\<forall>e. snd (replay x (length tr) new) = Some e \<longrightarrow>
                (\<exists>w'. then_nb m f (w, tr) = (Inl e, w', tr @ fst (replay x (length tr) new))))"
  proof (cases r0)
    case (Inl e0)
    then have eq: "r = Inl e0" "w' = w0" "tr' = tr0 @ new1"
      using m0 new1 run0 by (simp_all add: then_nb_def)
    have a: "snd (replay x (length tr) new1) = None \<Longrightarrow> then_nb m f (w, tr) = (r, w', tr @ new1)"
      using ok1 Inl eq by (simp add: then_nb_def)
    have b: "\<And>e. snd (replay x (length tr) new1) = Some e \<Longrightarrow>
           \<exists>w'. then_nb m f (w, tr) = (Inl e, w', tr @ fst (replay x (length tr) new1))"
    proof -
      fix e assume "snd (replay x (length tr) new1) = Some e"
      from ko1 [OF this] obtain w'' where "m (w, tr) = (Inl e, w'', tr @ fst (replay x (length tr) new1))"
        by blast
      then have "then_nb m f (w, tr) = (Inl e, w'', tr @ fst (replay x (length tr) new1))"
        by (simp add: then_nb_def)
      then show "\<exists>w'. then_nb m f (w, tr) = (Inl e, w', tr @ fst (replay x (length tr) new1))"
        by blast
    qed
    show ?thesis
    proof (intro exI [of _ new1] conjI impI allI)
      show "tr' = tr0 @ new1" by (rule eq(3))
    qed (erule a, erule b)
  next
    case (Inr a)
    then have run0': "f0 a (w0, tr0 @ new1) = (r, w', tr')"
      using m0 new1 run0 by (simp add: then_nb_def)
    have len2: "length (tr @ new1) = length (tr0 @ new1)" using len by simp
    from simD [OF f [of a] len2 run0'] obtain new2 where
      new2: "tr' = (tr0 @ new1) @ new2" and
      ok2: "snd (replay x (length (tr @ new1)) new2) = None \<Longrightarrow>
              f a (w0, tr @ new1) = (r, w', (tr @ new1) @ new2)" and
      ko2: "\<And>e. snd (replay x (length (tr @ new1)) new2) = Some e \<Longrightarrow>
           \<exists>w'. f a (w0, tr @ new1) = (Inl e, w', (tr @ new1) @ fst (replay x (length (tr @ new1)) new2))"
      by blast
    obtain n2 o2 where r2: "replay x (length tr + length new1) new2 = (n2, o2)"
      by (cases "replay x (length tr + length new1) new2")
    show ?thesis
    proof (cases o1)
      case (Some e)
      then obtain w'' where mw: "m (w, tr) = (Inl e, w'', tr @ n1)" using ko1 r1 by auto
      have rp: "replay x (length tr) (new1 @ new2) = (n1, Some e)"
        using r1 Some by (simp add: replay_append)
      have "then_nb m f (w, tr) = (Inl e, w'', tr @ n1)"
        using mw by (simp add: then_nb_def)
      then show ?thesis using new2 rp r1 by (intro exI [of _ "new1 @ new2"]) simp
    next
      case None
      then have mw: "m (w, tr) = (Inr a, w0, tr @ new1)" using ok1 r1 Inr by auto
      have rp: "replay x (length tr) (new1 @ new2) = (new1 @ n2, o2)"
        using r1 None r2 by (simp add: replay_append)
      have tm: "then_nb m f (w, tr) = f a (w0, tr @ new1)"
        using mw by (simp add: then_nb_def)
      show ?thesis
      proof (intro exI [of _ "new1 @ new2"] conjI impI allI)
        show "tr' = tr0 @ new1 @ new2" using new2 by simp
      next
        assume "snd (replay x (length tr) (new1 @ new2)) = None"
        then have "o2 = None" using rp by simp
        then show "then_nb m f (w, tr) = (r, w', tr @ new1 @ new2)"
          using ok2 r2 tm by simp
      next
        fix e assume "snd (replay x (length tr) (new1 @ new2)) = Some e"
        then have "o2 = Some e" using rp by simp
        then obtain w'' where "f a (w0, tr @ new1) = (Inl e, w'', (tr @ new1) @ n2)"
          using ko2 [of e] r2 by auto
        then show "\<exists>w'. then_nb m f (w, tr) =
                  (Inl e, w', tr @ fst (replay x (length tr) (new1 @ new2)))"
          using tm rp by simp
      qed
    qed
  qed
qed


lemma run_sql_silent [simp]: "run_sql (silent x) = run_sql x"
  by (intro ext) (simp add: run_sql_def split: sum.splits option.splits)

lemma sim_prims:
  "sim x (pip_install x req) (pip_install (silent x) req)"
  "sim x (dbutils_widgets_text x n d l) (dbutils_widgets_text (silent x) n d l)"
  "sim x (dbutils_widgets_get x n) (dbutils_widgets_get (silent x) n)"
  "sim x (spark_conf_set x k v) (spark_conf_set (silent x) k v)"
  "sim x (print_nb x ss) (print_nb (silent x) ss)"
  "sim x (display x pv) (display (silent x) pv)"
  "sim x (cell_value x pv) (cell_value (silent x) pv)"
  "sim x (dbutils_fs_ls x p) (dbutils_fs_ls (silent x) p)"
  "sim x (Catalog_catalog x p) (Catalog_catalog (silent x) p)"
  "sim x (Catalog_save x df t mode) (Catalog_save (silent x) df t mode)"
  "sim x (Catalog_load x t) (Catalog_load (silent x) t)"
  "sim x (spark_table x t) (spark_table (silent x) t)"
  "sim x (sql x q) (sql (silent x) q)"
  "sim x (df_count x df) (df_count (silent x) df)"
  "sim x (repartition x df k') (repartition (silent x) df k')"
  "sim x (df_filter x df ex) (df_filter (silent x) df ex)"
  "sim x (limit x df k') (limit (silent x) df k')"
  "sim x (DicomMetaExtractor x) (DicomMetaExtractor (silent x))"
  "sim x (transform x df) (transform (silent x) df)"
  "sim x (DicomFrames x df wm ic) (DicomFrames (silent x) df wm ic)"
  "sim x (plotx x fr) (plotx (silent x) fr)"
  by (simp_all add: prim_defs sim_lib)

lemma sim_case_prod:
  "(\<And>a b. sim x (f a b) (f0 a b)) \<Longrightarrow> sim x (case_prod f ab) (case_prod f0 ab)"
  by (cases ab) simp

lemmas sim_intros = sim_then sim_return sim_case_prod sim_prims

lemma sim_cells:
  "sim x (cell_requirements x) (cell_requirements (silent x))"
  "sim x (cell_params x) (cell_params (silent x))"
  "sim x (cell_ls x p) (cell_ls (silent x) p)"
  "sim x (cell_catalog x p) (cell_catalog (silent x) p)"
  "sim x (cell_save x df t) (cell_save (silent x) df t)"
  "sim x (cell_sql_count_star x) (cell_sql_count_star (silent x))"
  "sim x (cell_load x t) (cell_load (silent x) t)"
  "sim x (cell_count x df) (cell_count (silent x) df)"
  "sim x (cell_extract x df t) (cell_extract (silent x) df t)"
  "sim x (cell_analyze x) (cell_analyze (silent x))"
  "sim x (cell_filter x t) (cell_filter (silent x) t)"
  "sim x (cell_plot x df) (cell_plot (silent x) df)"
  unfolding cell_requirements_def cell_params_def cell_ls_def cell_catalog_def cell_save_def
    cell_sql_count_star_def cell_load_def cell_count_def cell_extract_def cell_analyze_def
    cell_filter_def cell_plot_def
  by (intro sim_intros)+

lemma sim_notebook: "sim x (notebook x) (notebook (silent x))"
  unfolding notebook_def by (intro sim_intros sim_cells)

text \<open>Every run is the silent run cut at the first failure.\<close>

lemma run_replay:
  fixes x w
  defines "q \<equiv> quiet_trace x (path_param w) (table_param w)"
  shows "trace_of (run x w) = fst (replay x 0 q)"
    and "result_of (run x w) =
           (case snd (replay x 0 q) of
              None \<Rightarrow> Inr (quiet_vars x (path_param w) (table_param w))
            | Some e \<Rightarrow> Inl e)"
    and "snd (replay x 0 q) = None \<Longrightarrow> world_of (run x w) = quiet_world x w"
proof -
  have q0: "notebook (silent x) (w, []) =
      (Inr (quiet_vars x (path_param w) (table_param w)), quiet_world x w, [] @ q)"
    using quiet_run [of x w] by (simp add: run_def q_def)
  have len: "length ([] :: event list) = length ([] :: event list)" by simp
  from simD [OF sim_notebook len q0] obtain new where
    new: "[] @ q = [] @ new" and
    ok: "snd (replay x (length ([] :: event list)) new) = None \<Longrightarrow>
          notebook x (w, []) = (Inr (quiet_vars x (path_param w) (table_param w)), quiet_world x w, [] @ new)" and
    ko: "\<And>e. snd (replay x (length ([] :: event list)) new) = Some e \<Longrightarrow>
          \<exists>w'. notebook x (w, []) = (Inl e, w', [] @ fst (replay x (length ([] :: event list)) new))"
    by blast
  from new have nq: "new = q" by simp
  show "trace_of (run x w) = fst (replay x 0 q)"
  proof (cases "snd (replay x 0 q)")
    case None
    then have "fst (replay x 0 q) = q" by (metis replay_None prod.collapse)
    then show ?thesis using ok None nq by (simp add: run_def trace_of_def)
  next
    case (Some e)
    then show ?thesis using ko [of e] nq by (auto simp: run_def trace_of_def)
  qed
  show "result_of (run x w) =
           (case snd (replay x 0 q) of
              None \<Rightarrow> Inr (quiet_vars x (path_param w) (table_param w))
            | Some e \<Rightarrow> Inl e)"
  proof (cases "snd (replay x 0 q)")
    case None
    then show ?thesis using ok nq by (simp add: run_def result_of_def)
  next
    case (Some e)
    then show ?thesis using ko [of e] nq by (auto simp: run_def result_of_def)
  qed
  show "snd (replay x 0 q) = None \<Longrightarrow> world_of (run x w) = quiet_world x w"
    using ok nq by (simp add: run_def world_of_def)
qed

section \<open>Cutting a trace at the first failure\<close>


lemma replay_fst_Cons:
  "fst (replay x i ((c, out) # evs)) =
     (case fails x i c of
        Some e \<Rightarrow> [(c, Raised e)]
      | None \<Rightarrow> (c, out) # fst (replay x (Suc i) evs))"
  by (simp split: option.splits prod.splits)

lemma replay_snd_Cons:
  "snd (replay x i ((c, out) # evs)) =
     (case fails x i c of Some e \<Rightarrow> Some e | None \<Rightarrow> snd (replay x (Suc i) evs))"
  by (simp split: option.splits prod.splits)

lemmas replay_Cons = replay_fst_Cons replay_snd_Cons

lemma replay_calls: "prefix (map fst (fst (replay x i evs))) (map fst evs)"
proof (induction evs arbitrary: i)
  case Nil
  show ?case by simp
next
  case (Cons ev evs)
  obtain c out where ev: "ev = (c, out)" by (cases ev)
  show ?case
    unfolding ev replay_fst_Cons using Cons.IH [of "Suc i"]
    by (simp split: option.splits)
qed

lemma replay_Some:
  "snd (replay x i evs) = Some e \<Longrightarrow>
     fst (replay x i evs) \<noteq> [] \<and> snd (last (fst (replay x i evs))) = Raised e"
proof (induction evs arbitrary: i)
  case Nil
  then show ?case by simp
next
  case (Cons ev evs)
  obtain c out where ev: "ev = (c, out)" by (cases ev)
  show ?case
  proof (cases "fails x i c")
    case None
    then have "snd (replay x (Suc i) evs) = Some e"
      using Cons.prems by (simp add: ev replay_snd_Cons del: replay.simps)
    from Cons.IH [OF this] show ?thesis
      using None by (simp add: ev replay_fst_Cons del: replay.simps)
  next
    case (Some e')
    then show ?thesis using Cons.prems by (simp add: ev replay_Cons del: replay.simps)
  qed
qed

lemma replay_butlast:
  "list_all returned evs \<Longrightarrow> list_all returned (butlast (fst (replay x i evs)))"
proof (induction evs arbitrary: i)
  case Nil
  show ?case by simp
next
  case (Cons ev evs)
  obtain c out where ev: "ev = (c, out)" by (cases ev)
  from Cons.prems have "list_all returned evs" and r: "returned (c, out)" by (simp_all add: ev)
  from Cons.IH [OF this(1), of "Suc i"] r show ?case
    by (simp add: ev replay_fst_Cons del: replay.simps split: option.splits)
qed

lemma replay_fst_None: "snd (replay x i evs) = None \<Longrightarrow> fst (replay x i evs) = evs"
  by (metis replay_None prod.collapse)

lemma replay_raised:
  "list_all returned evs \<Longrightarrow> (c, Raised e) \<in> set (fst (replay x i evs)) \<Longrightarrow>
     snd (replay x i evs) = Some e"
proof (induction evs arbitrary: i)
  case Nil
  then show ?case by simp
next
  case (Cons ev evs)
  obtain c' out where ev: "ev = (c', out)" by (cases ev)
  from Cons.prems(1) have all: "list_all returned evs" and r: "returned (c', out)"
    by (simp_all add: ev)
  show ?case
  proof (cases "fails x i c'")
    case None
    have "(c, Raised e) \<noteq> (c', out)" using r by (cases out) auto
    then have "(c, Raised e) \<in> set (fst (replay x (Suc i) evs))"
      using Cons.prems(2) None by (auto simp add: ev replay_fst_Cons simp del: replay.simps)
    from Cons.IH [OF all this] show ?thesis using None by (simp add: ev replay_snd_Cons del: replay.simps)
  next
    case (Some e')
    then show ?thesis using Cons.prems(2) by (simp add: ev replay_Cons del: replay.simps)
  qed
qed

lemma replay_passes_on: "passes_on S evs \<Longrightarrow> passes_on S (fst (replay x i evs))"
proof (induction evs arbitrary: i S)
  case Nil
  show ?case by simp
next
  case (Cons ev evs)
  obtain c out where ev: "ev = (c, out)" by (cases ev)
  from Cons.prems have a: "list_all (\<lambda>a. a \<in> set S) (args_of c)"
    and b: "passes_on (case out of Returned v \<Rightarrow> v # S | Raised _ \<Rightarrow> S) evs"
    by (simp_all add: ev)
  from Cons.IH [OF b, of "Suc i"] a show ?case
    by (simp add: ev replay_fst_Cons del: replay.simps split: option.splits)
qed

lemma replay_never: "(\<And>n c. fails x n c = None) \<Longrightarrow> replay x i evs = (evs, None)"
  by (induction evs arbitrary: i) auto

lemma prefix_map_filter: "prefix xs ys \<Longrightarrow> prefix (List.map_filter g xs) (List.map_filter g ys)"
  by (simp add: List.map_filter_def map_mono_prefix filter_mono_prefix)

lemma map_filter_fst: "List.map_filter (g \<circ> fst) tr = List.map_filter g (map fst tr)"
  by (induction tr) (simp_all split: option.splits)

lemma quiet_returned: "list_all returned (quiet_trace x p t)"
  by (simp add: quiet_trace_def)

lemma quiet_names: "names (quiet_trace x p t) = script"
  by (simp add: quiet_trace_def names_def script_def)

lemma quiet_operations: "operations (quiet_trace x p t) = file_sequence"
  by (simp add: quiet_trace_def operations_def file_sequence_def)

lemma quiet_passes_on: "passes_on [] (quiet_trace x p t)"
  by (simp add: quiet_trace_def)

lemma quiet_widget_reads: "widget_reads (quiet_trace x p t) = [''path'', ''table'']"
  by (simp add: quiet_trace_def widget_reads_def)

lemma quiet_widget_decls: "widget_decls (quiet_trace x p t) = [''path'', ''table'']"
  by (simp add: quiet_trace_def widget_decls_def)

lemma quiet_table_args: "table_args (quiet_trace x p t) = [t, t, t, t, t]"
  by (simp add: quiet_trace_def table_args_def)

lemma quiet_sql_refs: "sql_refs (quiet_trace x p t) = replicate 4 (ConfVar ''c.table'')"
  by (simp add: quiet_trace_def sql_refs_def sql_count_star_def sql_count_one_def
      sql_patients_def sql_patient7747_def numeral_eq_Suc)

lemma quiet_conf_sets: "conf_sets (quiet_trace x p t) = [(''c.table'', t)]"
  by (simp add: quiet_trace_def conf_sets_def)

lemma quiet_save_modes:
  "List.map_filter (save_mode \<circ> fst) (quiet_trace x p t) = [''overwrite'', ''overwrite'']"
  by (simp add: quiet_trace_def)

section \<open>Runs of the notebook\<close>


lemma run_calls:
  "prefix (map fst (trace_of (run x w))) (map fst (quiet_trace x (path_param w) (table_param w)))"
  by (simp add: run_replay(1) replay_calls)

lemma run_Inr:
  assumes "result_of (run x w) = Inr v"
  shows "v = quiet_vars x (path_param w) (table_param w)"
    and "trace_of (run x w) = quiet_trace x (path_param w) (table_param w)"
    and "world_of (run x w) = quiet_world x w"
proof -
  let ?q = "quiet_trace x (path_param w) (table_param w)"
  from assms have none: "snd (replay x 0 ?q) = None" and
    v: "v = quiet_vars x (path_param w) (table_param w)"
    by (auto simp: run_replay(2) split: option.splits)
  show "v = quiet_vars x (path_param w) (table_param w)" by (rule v)
  show "trace_of (run x w) = ?q"
    using none by (simp add: run_replay(1) replay_fst_None)
  show "world_of (run x w) = quiet_world x w"
    using none by (rule run_replay(3))
qed

lemma run_Inl:
  "result_of (run x w) = Inl e \<Longrightarrow>
     snd (replay x 0 (quiet_trace x (path_param w) (table_param w))) = Some e"
  by (auto simp: run_replay(2) split: option.splits)

lemma run_same:
  assumes "path_param w' = path_param w" and "table_param w' = table_param w"
  shows "trace_of (run x w') = trace_of (run x w)" and "result_of (run x w') = result_of (run x w)"
  unfolding run_replay(1,2) assms by (rule refl)+

lemma run_never:
  assumes "\<And>n c. fails x n c = None"
  shows "result_of (run x w) = Inr (quiet_vars x (path_param w) (table_param w))"
  using replay_never [of x, OF assms] by (simp add: run_replay(2))

lemma names_calls: "names tr = map call_name (map fst tr)"
  by (simp add: names_def)

lemma run_names: "prefix (names (trace_of (run x w))) script"
  using map_mono_prefix [OF run_calls, of call_name x w]
  unfolding names_calls [symmetric] quiet_names .

lemma prefix_list_all: "prefix xs ys \<Longrightarrow> list_all P ys \<Longrightarrow> list_all P xs"
  by (auto simp: prefix_def)

lemma run_view:
  "prefix (List.map_filter (g \<circ> fst) (trace_of (run x w)))
          (List.map_filter (g \<circ> fst) (quiet_trace x (path_param w) (table_param w)))"
  unfolding map_filter_fst by (rule prefix_map_filter [OF run_calls])

lemma demo_silent: "silent demo_ext = demo_ext"
  by (simp add: silent_def demo_ext_def)

lemma demo_params: "path_param demo_world = ''/d/''" "table_param demo_world = ''c.s.t''"
  by (simp_all add: path_param_def table_param_def demo_world_def)

lemma demo_result: "result_of (run demo_ext demo_world) = Inr (quiet_vars demo_ext ''/d/'' ''c.s.t'')"
  using quiet_run [of demo_ext demo_world] by (simp add: demo_silent demo_params result_of_def)

lemma demo_trace: "trace_of (run demo_ext demo_world) = quiet_trace demo_ext ''/d/'' ''c.s.t''"
  using quiet_run [of demo_ext demo_world] by (simp add: demo_silent demo_params trace_of_def)

lemma demo_world_of: "world_of (run demo_ext demo_world) = quiet_world demo_ext demo_world"
  using quiet_run [of demo_ext demo_world] by (simp add: demo_silent demo_params world_of_def)

lemma other_params: "path_param other_world = ''/d/''" "table_param other_world = ''c.s.t''"
  by (simp_all add: path_param_def table_param_def other_world_def)

lemma failing_replay:
  "replay failing_ext 0 (quiet_trace failing_ext ''/d/'' ''c.s.t'') =
     (take 13 (quiet_trace failing_ext ''/d/'' ''c.s.t'') @
        [(CatalogLoad ''c.s.t'', Raised (LibraryError ''table is gone''))],
      Some (LibraryError ''table is gone''))"
  by (simp add: quiet_trace_def failing_ext_def)

lemma failing_result:
  "result_of (run failing_ext demo_world) = Inl (LibraryError ''table is gone'')"
  by (simp add: run_replay(2) demo_params failing_replay)

lemma failing_trace:
  "trace_of (run failing_ext demo_world) =
     take 13 (quiet_trace failing_ext ''/d/'' ''c.s.t'') @
        [(CatalogLoad ''c.s.t'', Raised (LibraryError ''table is gone''))]"
  by (simp add: run_replay(1) demo_params failing_replay)

lemma params_update:
  "ws ''path'' = widgets w ''path'' \<Longrightarrow> path_param (w\<lparr>widgets := ws, conf := cf\<rparr>) = path_param w"
  "ws ''table'' = widgets w ''table'' \<Longrightarrow> table_param (w\<lparr>widgets := ws, conf := cf\<rparr>) = table_param w"
  by (simp_all add: path_param_def table_param_def)

lemma params_tables:
  "path_param (w\<lparr>tables := T\<rparr>) = path_param w" "table_param (w\<lparr>tables := T\<rparr>) = table_param w"
  by (simp_all add: path_param_def table_param_def)

lemma demo_world_tables: "tables (quiet_world demo_ext demo_world) = [''c.s.t'' \<mapsto> extracted demo_ext ''/d/'']"
  by (simp add: quiet_world_def demo_params) (simp add: demo_world_def)

lemma in_quiet_trace:
  "(Transform (catalog_files x p), Returned (VDf (extracted x p))) \<in> set (quiet_trace x p t)"
  "(CatalogLoad t, Returned (VDf (extracted x p))) \<in> set (quiet_trace x p t)"
  "(Filter (extracted x p) ''meta:img_max < 1000'', Returned (VDf (kept x p))) \<in> set (quiet_trace x p t)"
  "(Count (kept x p), Returned (VInt (int (length (rows (kept x p)))))) \<in> set (quiet_trace x p t)"
  "(Limit (kept x p) 100, Returned (VDf (shown x p))) \<in> set (quiet_trace x p t)"
  "(NewDicomFrames (shown x p) True ''local_path'',
      Returned (VFrames \<lparr>frames_df = shown x p, with_meta = True, input_col = ''local_path''\<rparr>))
     \<in> set (quiet_trace x p t)"
  "(Plotx \<lparr>frames_df = shown x p, with_meta = True, input_col = ''local_path''\<rparr>,
      Returned (VPlots (thumbs x p))) \<in> set (quiet_trace x p t)"
  by (simp_all add: quiet_trace_def)

lemma quiet_vars_simps:
  "path (quiet_vars x p t) = p" "table (quiet_vars x p t) = t"
  "catalog_df (quiet_vars x p t) = catalog_files x p"
  "meta_df (quiet_vars x p t) = extracted x p"
  "dcm_df_filtered (quiet_vars x p t) = kept x p"
  "plots (quiet_vars x p t) = thumbs x p"
  by (simp_all add: quiet_vars_def)

lemma many_silent: "silent many_ext = many_ext"
  by (simp add: silent_def many_ext_def demo_ext_def)

lemma many_result: "result_of (run many_ext demo_world) = Inr (quiet_vars many_ext ''/d/'' ''c.s.t'')"
  using quiet_run [of many_ext demo_world] by (simp add: many_silent demo_params result_of_def)

lemma many_kept: "rows (kept many_ext ''/d/'') = replicate 101 [''/d/'', ''/a.dcm'', ''500'']"
  by (simp add: kept_def extracted_def add_meta_def many_ext_def demo_ext_def)

lemma demo_kept:
  "kept demo_ext ''/d/'' =
     \<lparr>columns = [''path'', ''local_path'', ''meta''], rows = [ [''/d/a.dcm'', ''/a.dcm'', ''500'']]\<rparr>"
  by (simp add: kept_def extracted_def add_meta_def demo_ext_def)

lemma demo_extracted:
  "extracted demo_ext ''/d/'' =
     \<lparr>columns = [''path'', ''local_path'', ''meta''],
      rows = [ [''/d/a.dcm'', ''/a.dcm'', ''500''], [''/d/b.dcm'', ''/b.dcm'', ''2000'']]\<rparr>"
  by (simp add: extracted_def add_meta_def demo_ext_def)

lemma replay_last_fails_gen:
  "snd (replay x i evs) = Some e \<Longrightarrow>
     fails x (i + (length (fst (replay x i evs)) - 1)) (fst (last (fst (replay x i evs)))) = Some e"
proof (induction evs arbitrary: i)
  case Nil
  then show ?case by simp
next
  case (Cons ev evs)
  obtain c out where ev: "ev = (c, out)" by (cases ev)
  show ?case
  proof (cases "fails x i c")
    case None
    then have s: "snd (replay x (Suc i) evs) = Some e"
      using Cons.prems by (simp add: ev replay_snd_Cons del: replay.simps)
    from replay_Some [OF s] have ne: "fst (replay x (Suc i) evs) \<noteq> []" by simp
    then have "Suc i + (length (fst (replay x (Suc i) evs)) - 1)
        = i + length (fst (replay x (Suc i) evs))"
      by (cases "fst (replay x (Suc i) evs)") simp_all
    with Cons.IH [OF s] ne None show ?thesis
      by (simp add: ev replay_fst_Cons del: replay.simps)
  next
    case (Some e')
    then show ?thesis using Cons.prems by (simp add: ev replay_Cons del: replay.simps)
  qed
qed

lemma replay_last_fails:
  "snd (replay x 0 evs) = Some e \<Longrightarrow>
     fails x (length (fst (replay x 0 evs)) - 1) (fst (last (fst (replay x 0 evs)))) = Some e"
  using replay_last_fails_gen [of x 0 evs e] by simp

lemma prefix_take: "prefix xs ys \<Longrightarrow> xs = take (length xs) ys"
  by (auto simp: prefix_def)

lemma prefix_concat_map: "prefix xs ys \<Longrightarrow> prefix (concat (map f xs)) (concat (map f ys))"
  by (auto simp: prefix_def)

lemma literals_calls: "literals tr = concat (map literals_of (map fst tr))"
  by (simp add: literals_def)

lemma quiet_literals: "literals (quiet_trace x p t) = file_literals"
  by (simp add: quiet_trace_def literals_def file_literals_def)

lemma run_literals: "prefix (literals (trace_of (run x w))) file_literals"
  using prefix_concat_map [OF run_calls, of literals_of x w]
  unfolding literals_calls [symmetric] quiet_literals .

lemma quiet_bindings:
  "list_all (\<lambda>b. b \<in> set (returns (quiet_trace x p t))) (bindings (quiet_vars x p t))"
  by (simp add: bindings_def quiet_vars_simps returns_def quiet_trace_def)

section \<open>The claims\<close>

text \<open>
  C3. The notebook handles no exception and validates neither parameter. When a run ends
  with an exception, that exception is the one raised by the last call of the trace,
  unchanged; every call before it returned, so nothing is retried and nothing runs after
  a failure; an exception raised by any call is the result of the run. And when no
  library call raises, the run succeeds for every value of the two parameters, with path
  and table bound to the widget values as they are.
\<close>

theorem exceptions_propagate:
  "(\<forall>e. result_of (run x w) = Inl e \<longrightarrow>
        trace_of (run x w) \<noteq> [] \<and> snd (last (trace_of (run x w))) = Raised e) \<and>
   list_all returned (butlast (trace_of (run x w))) \<and>
   (\<forall>c e. (c, Raised e) \<in> set (trace_of (run x w)) \<longrightarrow> result_of (run x w) = Inl e) \<and>
   ((\<forall>n c. fails x n c = None) \<longrightarrow>
        (\<exists>v. result_of (run x w) = Inr v \<and> path v = path_param w \<and> table v = table_param w))"
proof (intro conjI allI impI)
  fix e assume "result_of (run x w) = Inl e"
  from replay_Some [OF run_Inl [OF this]]
  show "trace_of (run x w) \<noteq> []" and "snd (last (trace_of (run x w))) = Raised e"
    by (simp_all add: run_replay(1))
next
  show "list_all returned (butlast (trace_of (run x w)))"
    unfolding run_replay(1) by (rule replay_butlast [OF quiet_returned])
next
  fix c e assume "(c, Raised e) \<in> set (trace_of (run x w))"
  then have "snd (replay x 0 (quiet_trace x (path_param w) (table_param w))) = Some e"
    unfolding run_replay(1) by (rule replay_raised [OF quiet_returned])
  then show "result_of (run x w) = Inl e"
    by (simp add: run_replay(2))
next
  assume "\<forall>n c. fails x n c = None"
  then have "result_of (run x w) = Inr (quiet_vars x (path_param w) (table_param w))"
    by (intro run_never) simp
  then show "\<exists>v. result_of (run x w) = Inr v \<and> path v = path_param w \<and> table v = table_param w"
    by (simp add: quiet_vars_def)
qed

theorem exceptions_propagate_witness:
  "result_of (run failing_ext demo_world) = Inl (LibraryError ''table is gone'') \<and>
   snd (last (trace_of (run failing_ext demo_world))) = Raised (LibraryError ''table is gone'') \<and>
   (CatalogLoad ''c.s.t'', Raised (LibraryError ''table is gone''))
      \<in> set (trace_of (run failing_ext demo_world)) \<and>
   length (trace_of (run failing_ext demo_world)) = 14 \<and>
   (\<exists>v. result_of (run demo_ext demo_world) = Inr v \<and> path v = ''/d/'' \<and> table v = ''c.s.t'')"
proof -
  have l: "length (trace_of (run failing_ext demo_world)) = 14"
    by (simp add: failing_trace quiet_trace_def)
  have m: "(CatalogLoad ''c.s.t'', Raised (LibraryError ''table is gone''))
      \<in> set (trace_of (run failing_ext demo_world))"
    by (simp add: failing_trace)
  have n: "\<forall>n c. fails demo_ext n c = None"
    by (simp add: demo_ext_def)
  from exceptions_propagate [of failing_ext demo_world] failing_result
  have a: "snd (last (trace_of (run failing_ext demo_world))) = Raised (LibraryError ''table is gone'')"
    by blast
  from exceptions_propagate [of demo_ext demo_world] n
  have b: "\<exists>v. result_of (run demo_ext demo_world) = Inr v \<and>
             path v = path_param demo_world \<and> table v = table_param demo_world"
    by blast
  from failing_result a m l b show ?thesis
    unfolding demo_params by (intro conjI)
qed

text \<open>
  C2. The parameter intake is exactly the two text widgets path and table. In every run
  the widgets declared and the widgets read are an initial part of path, table (both, in
  a run that succeeds, and the variables path and table hold their values); and a run
  depends on the widgets and on the configuration it starts with through these two
  values only: changing any other widget, or any configuration key, changes neither the
  calls nor the result.
\<close>

theorem two_parameters_only:
  "prefix (widget_reads (trace_of (run x w))) [''path'', ''table''] \<and>
   prefix (widget_decls (trace_of (run x w))) [''path'', ''table''] \<and>
   (\<forall>ws cf. ws ''path'' = widgets w ''path'' \<and> ws ''table'' = widgets w ''table'' \<longrightarrow>
        trace_of (run x (w\<lparr>widgets := ws, conf := cf\<rparr>)) = trace_of (run x w) \<and>
        result_of (run x (w\<lparr>widgets := ws, conf := cf\<rparr>)) = result_of (run x w)) \<and>
   (\<forall>v. result_of (run x w) = Inr v \<longrightarrow>
        widget_reads (trace_of (run x w)) = [''path'', ''table''] \<and>
        path v = path_param w \<and> table v = table_param w)"
proof (intro conjI allI impI)
  show "prefix (widget_reads (trace_of (run x w))) [''path'', ''table'']"
    using run_view [of widget_read x w] by (simp add: widget_reads_def [symmetric] quiet_widget_reads)
  show "prefix (widget_decls (trace_of (run x w))) [''path'', ''table'']"
    using run_view [of widget_decl x w] by (simp add: widget_decls_def [symmetric] quiet_widget_decls)
next
  fix ws cf assume a: "ws ''path'' = widgets w ''path'' \<and> ws ''table'' = widgets w ''table''"
  then have p: "path_param (w\<lparr>widgets := ws, conf := cf\<rparr>) = path_param w"
    and t: "table_param (w\<lparr>widgets := ws, conf := cf\<rparr>) = table_param w"
    by (simp_all add: params_update)
  show "trace_of (run x (w\<lparr>widgets := ws, conf := cf\<rparr>)) = trace_of (run x w)"
    by (rule run_same(1) [OF p t])
  show "result_of (run x (w\<lparr>widgets := ws, conf := cf\<rparr>)) = result_of (run x w)"
    by (rule run_same(2) [OF p t])
next
  fix v assume r: "result_of (run x w) = Inr v"
  show "widget_reads (trace_of (run x w)) = [''path'', ''table'']"
    by (simp add: run_Inr(2) [OF r] quiet_widget_reads)
  show "path v = path_param w" "table v = table_param w"
    by (simp_all add: run_Inr(1) [OF r] quiet_vars_def)
qed

theorem two_parameters_only_witness:
  "widgets other_world ''path'' = widgets demo_world ''path'' \<and>
   widgets other_world ''table'' = widgets demo_world ''table'' \<and>
   widgets other_world ''extra'' \<noteq> widgets demo_world ''extra'' \<and>
   trace_of (run demo_ext (demo_world\<lparr>widgets := widgets other_world, conf := conf other_world\<rparr>))
     = trace_of (run demo_ext demo_world) \<and>
   result_of (run demo_ext demo_world) = Inr (quiet_vars demo_ext ''/d/'' ''c.s.t'') \<and>
   widget_reads (trace_of (run demo_ext demo_world)) = [''path'', ''table''] \<and>
   path (quiet_vars demo_ext ''/d/'' ''c.s.t'') = ''/d/'' \<and>
   table (quiet_vars demo_ext ''/d/'' ''c.s.t'') = ''c.s.t''"
proof -
  have a: "widgets other_world ''path'' = widgets demo_world ''path''"
    "widgets other_world ''table'' = widgets demo_world ''table''"
    "widgets other_world ''extra'' \<noteq> widgets demo_world ''extra''"
    by (simp_all add: other_world_def demo_world_def)
  from two_parameters_only [of demo_ext demo_world] a demo_result
  show ?thesis by (simp add: demo_params quiet_vars_def)
qed

text \<open>
  C7. The notebook addresses one table, the one named by the table widget. In every run
  each save, load and table read names the widget's value; each SQL cell names its table
  as the configuration variable c.table; the only configuration key written is c.table,
  with the widget's value, and at most once (exactly once in a run that succeeds, after
  which c.table holds that value). No other table is read: replacing the whole table
  store before the run changes neither the calls nor the result. No other table is
  written: after a run that succeeds every table of another name holds what it held.
\<close>

theorem one_table_only:
  "list_all (\<lambda>t. t = table_param w) (table_args (trace_of (run x w))) \<and>
   list_all (\<lambda>r. r = ConfVar ''c.table'') (sql_refs (trace_of (run x w))) \<and>
   prefix (conf_sets (trace_of (run x w))) [(''c.table'', table_param w)] \<and>
   (\<forall>T. trace_of (run x (w\<lparr>tables := T\<rparr>)) = trace_of (run x w) \<and>
        result_of (run x (w\<lparr>tables := T\<rparr>)) = result_of (run x w)) \<and>
   (\<forall>v. result_of (run x w) = Inr v \<longrightarrow>
        table v = table_param w \<and>
        conf_sets (trace_of (run x w)) = [(''c.table'', table v)] \<and>
        conf (world_of (run x w)) ''c.table'' = Some (table v) \<and>
        (\<forall>n. n \<noteq> table v \<longrightarrow> tables (world_of (run x w)) n = tables w n))"
proof (intro conjI allI impI)
  show "list_all (\<lambda>t. t = table_param w) (table_args (trace_of (run x w)))"
    using run_view [of table_arg x w] unfolding table_args_def [symmetric] quiet_table_args
    by (rule prefix_list_all) simp
  show "list_all (\<lambda>r. r = ConfVar ''c.table'') (sql_refs (trace_of (run x w)))"
    using run_view [of sql_ref x w] unfolding sql_refs_def [symmetric] quiet_sql_refs
    by (rule prefix_list_all) (simp add: list_all_iff)
  show "prefix (conf_sets (trace_of (run x w))) [(''c.table'', table_param w)]"
    using run_view [of conf_set x w] unfolding conf_sets_def [symmetric] quiet_conf_sets .
next
  fix T
  show "trace_of (run x (w\<lparr>tables := T\<rparr>)) = trace_of (run x w)"
    by (rule run_same(1) [OF params_tables])
  show "result_of (run x (w\<lparr>tables := T\<rparr>)) = result_of (run x w)"
    by (rule run_same(2) [OF params_tables])
next
  fix v assume r: "result_of (run x w) = Inr v"
  show t: "table v = table_param w"
    by (simp add: run_Inr(1) [OF r] quiet_vars_def)
  show "conf_sets (trace_of (run x w)) = [(''c.table'', table v)]"
    by (simp add: run_Inr(2) [OF r] quiet_conf_sets t)
  show "conf (world_of (run x w)) ''c.table'' = Some (table v)"
    by (simp add: run_Inr(3) [OF r] quiet_world_def t)
  fix n assume "n \<noteq> table v"
  then show "tables (world_of (run x w)) n = tables w n"
    by (simp add: run_Inr(3) [OF r] quiet_world_def t)
qed

theorem one_table_only_witness:
  "result_of (run demo_ext other_world) = Inr (quiet_vars demo_ext ''/d/'' ''c.s.t'') \<and>
   trace_of (run demo_ext (other_world\<lparr>tables := Map.empty\<rparr>)) = trace_of (run demo_ext other_world) \<and>
   table (quiet_vars demo_ext ''/d/'' ''c.s.t'') = ''c.s.t'' \<and>
   conf (world_of (run demo_ext other_world)) ''c.table'' = Some ''c.s.t'' \<and>
   tables (world_of (run demo_ext other_world)) ''old.table''
     = Some \<lparr>columns = [''kept''], rows = [ [''y'']]\<rparr> \<and>
   table_args (trace_of (run demo_ext other_world)) = replicate 5 ''c.s.t''"
proof -
  have r: "result_of (run demo_ext other_world) = Inr (quiet_vars demo_ext ''/d/'' ''c.s.t'')"
    using quiet_run [of demo_ext other_world] by (simp add: demo_silent other_params result_of_def)
  have tv: "table (quiet_vars demo_ext ''/d/'' ''c.s.t'') = ''c.s.t''"
    by (simp add: quiet_vars_def)
  have ne: "''old.table'' \<noteq> table (quiet_vars demo_ext ''/d/'' ''c.s.t'')"
    by (simp add: quiet_vars_def)
  have old: "tables other_world ''old.table'' = Some \<lparr>columns = [''kept''], rows = [ [''y'']]\<rparr>"
    by (simp add: other_world_def)
  have ta: "table_args (trace_of (run demo_ext other_world)) = replicate 5 ''c.s.t''"
    using quiet_run [of demo_ext other_world]
    by (simp add: demo_silent other_params trace_of_def quiet_table_args numeral_eq_Suc)
  note T = one_table_only [of other_world demo_ext]
  from T have a: "trace_of (run demo_ext (other_world\<lparr>tables := Map.empty\<rparr>)) = trace_of (run demo_ext other_world)"
    by blast
  from T r have b: "conf (world_of (run demo_ext other_world)) ''c.table''
      = Some (table (quiet_vars demo_ext ''/d/'' ''c.s.t''))"
    by blast
  from T r ne have c: "tables (world_of (run demo_ext other_world)) ''old.table'' = tables other_world ''old.table''"
    by blast
  from r a tv b c old ta show ?thesis by simp
qed

text \<open>
  C1, as amended. A run that succeeds issues exactly the calls of the file in their
  order, with the arguments shown in quiet_trace. In the overview's vocabulary the
  sequence is: read the two configuration strings, list the files, catalog, persist,
  query the table (line 84), reload, extract metadata, persist again, read the table
  back (line 116), query, reload once more (line 153), filter, plot. The overview's
  shorter sequence leaves out the query before the first reload and the two later
  reads of the table; the counterexample below shows that the run on the demonstration
  world does not have the overview's sequence.
\<close>

theorem notebook_sequence:
  assumes "result_of (run x w) = Inr v"
  shows "trace_of (run x w) = quiet_trace x (path v) (table v) \<and>
         operations (trace_of (run x w)) = file_sequence"
  using run_Inr(1,2) [OF assms] by (simp add: quiet_operations quiet_vars_def)

theorem notebook_sequence_witness:
  "result_of (run demo_ext demo_world) = Inr (quiet_vars demo_ext ''/d/'' ''c.s.t'') \<and>
   trace_of (run demo_ext demo_world) = quiet_trace demo_ext ''/d/'' ''c.s.t'' \<and>
   operations (trace_of (run demo_ext demo_world)) =
     [ReadConfig, ListFiles, CatalogFiles, Persist, Query, Reload, ExtractMeta, Persist,
      Reload, Query, Reload, FilterRows, Plot]"
proof -
  have v: "path (quiet_vars demo_ext ''/d/'' ''c.s.t'') = ''/d/''"
    "table (quiet_vars demo_ext ''/d/'' ''c.s.t'') = ''c.s.t''"
    by (simp_all add: quiet_vars_def)
  from notebook_sequence [OF demo_result]
  have "trace_of (run demo_ext demo_world) = quiet_trace demo_ext ''/d/'' ''c.s.t''"
    and "operations (trace_of (run demo_ext demo_world)) = file_sequence"
    unfolding v by blast+
  with demo_result show ?thesis
    unfolding file_sequence_def by (intro conjI)
qed

theorem spec_sequence_counterexample:
  "operations (trace_of (run demo_ext demo_world)) \<noteq> spec_sequence"
  by (simp add: demo_trace quiet_operations file_sequence_def spec_sequence_def)

text \<open>
  C4. In a run that succeeds the metadata dataframe is the catalog dataframe it was
  given with one more column: its columns are the catalog's columns followed by meta,
  its rows are the catalog's rows, each unchanged and followed by the serialized
  metadata of that row; removing the last cell of each row gives back the
  catalog's rows. The transformer was called on the reloaded catalog dataframe as it
  stands (repartitioning leaves rows and columns as they are).
\<close>

theorem metadata_is_one_more_column:
  assumes "result_of (run x w) = Inr v"
  shows "columns (meta_df v) = columns (catalog_df v) @ [''meta''] \<and>
         rows (meta_df v) =
           map (\<lambda>r. r @ [dicom_meta x (columns (catalog_df v)) r]) (rows (catalog_df v)) \<and>
         map butlast (rows (meta_df v)) = rows (catalog_df v) \<and>
         length (rows (meta_df v)) = length (rows (catalog_df v)) \<and>
         (Transform (catalog_df v), Returned (VDf (meta_df v))) \<in> set (trace_of (run x w))"
proof -
  have "map butlast (map (\<lambda>r. r @ [dicom_meta x (columns c) r]) rs) = rs" for c and rs :: "string list list"
    by (induction rs) simp_all
  then show ?thesis
    unfolding run_Inr(1,2) [OF assms] quiet_vars_simps
    by (simp add: in_quiet_trace(1)) (simp add: extracted_def add_meta_def)
qed

theorem metadata_is_one_more_column_witness:
  "result_of (run demo_ext demo_world) = Inr (quiet_vars demo_ext ''/d/'' ''c.s.t'') \<and>
   columns (catalog_df (quiet_vars demo_ext ''/d/'' ''c.s.t'')) = [''path'', ''local_path''] \<and>
   columns (meta_df (quiet_vars demo_ext ''/d/'' ''c.s.t'')) = [''path'', ''local_path'', ''meta''] \<and>
   rows (catalog_df (quiet_vars demo_ext ''/d/'' ''c.s.t''))
     = [ [''/d/a.dcm'', ''/a.dcm''], [''/d/b.dcm'', ''/b.dcm'']] \<and>
   rows (meta_df (quiet_vars demo_ext ''/d/'' ''c.s.t''))
     = [ [''/d/a.dcm'', ''/a.dcm'', ''500''], [''/d/b.dcm'', ''/b.dcm'', ''2000'']]"
proof -
  have c: "columns (catalog_df (quiet_vars demo_ext ''/d/'' ''c.s.t'')) = [''path'', ''local_path'']"
    "rows (catalog_df (quiet_vars demo_ext ''/d/'' ''c.s.t''))
       = [ [''/d/a.dcm'', ''/a.dcm''], [''/d/b.dcm'', ''/b.dcm'']]"
    by (simp_all add: quiet_vars_def demo_ext_def)
  have d: "dicom_meta demo_ext cs [''/d/a.dcm'', ''/a.dcm''] = ''500''"
    "dicom_meta demo_ext cs [''/d/b.dcm'', ''/b.dcm''] = ''2000''" for cs
    by (simp_all add: demo_ext_def)
  from metadata_is_one_more_column [OF demo_result]
  have "columns (meta_df (quiet_vars demo_ext ''/d/'' ''c.s.t''))
          = columns (catalog_df (quiet_vars demo_ext ''/d/'' ''c.s.t'')) @ [''meta'']"
    and "rows (meta_df (quiet_vars demo_ext ''/d/'' ''c.s.t'')) =
           map (\<lambda>r. r @ [dicom_meta demo_ext (columns (catalog_df (quiet_vars demo_ext ''/d/'' ''c.s.t''))) r])
               (rows (catalog_df (quiet_vars demo_ext ''/d/'' ''c.s.t'')))"
    by blast+
  then show ?thesis using demo_result c by (simp add: d)
qed

text \<open>
  C8. Both saves of a run that succeeds use mode overwrite on the same table, so the
  table holds the metadata dataframe alone afterwards: the same whatever the table store
  held before the run, the catalog-only contents of the first save included. As a law of
  the save itself: saving the metadata dataframe over a table just overwritten with any
  dataframe leaves the same state as saving the metadata dataframe alone.
\<close>

theorem overwrite_twice_is_overwrite_once:
  assumes "result_of (run x w) = Inr v"
  shows "List.map_filter (save_mode \<circ> fst) (trace_of (run x w)) = [''overwrite'', ''overwrite''] \<and>
         tables (world_of (run x w)) (table v) = Some (meta_df v) \<and>
         (\<forall>T. tables (world_of (run x (w\<lparr>tables := T\<rparr>))) (table v) = Some (meta_df v)) \<and>
         (\<forall>c u u1. save_table c (table v) ''overwrite'' u = Inr ((), u1) \<longrightarrow>
              save_table (meta_df v) (table v) ''overwrite'' u1
                = save_table (meta_df v) (table v) ''overwrite'' u)"
proof (intro conjI allI impI)
  show "List.map_filter (save_mode \<circ> fst) (trace_of (run x w)) = [''overwrite'', ''overwrite'']"
    unfolding run_Inr(2) [OF assms] by (rule quiet_save_modes)
  show "tables (world_of (run x w)) (table v) = Some (meta_df v)"
    unfolding run_Inr(1,3) [OF assms] quiet_vars_simps by (simp add: quiet_world_def)
next
  fix T
  have "result_of (run x (w\<lparr>tables := T\<rparr>)) = result_of (run x w)"
    by (rule run_same(2) [OF params_tables])
  then have r: "result_of (run x (w\<lparr>tables := T\<rparr>)) = Inr v"
    using assms by simp
  show "tables (world_of (run x (w\<lparr>tables := T\<rparr>))) (table v) = Some (meta_df v)"
    unfolding run_Inr(3) [OF r] run_Inr(1) [OF assms] quiet_vars_simps
    by (simp add: quiet_world_def params_tables)
next
  fix c u u1 assume "save_table c (table v) ''overwrite'' u = Inr ((), u1)"
  then show "save_table (meta_df v) (table v) ''overwrite'' u1
                = save_table (meta_df v) (table v) ''overwrite'' u"
    by (auto simp: save_table_def)
qed

theorem overwrite_twice_is_overwrite_once_witness:
  "result_of (run demo_ext other_world) = Inr (quiet_vars demo_ext ''/d/'' ''c.s.t'') \<and>
   tables other_world ''c.s.t'' = Some \<lparr>columns = [''stale''], rows = [ [''x'']]\<rparr> \<and>
   tables (world_of (run demo_ext other_world)) ''c.s.t''
     = Some \<lparr>columns = [''path'', ''local_path'', ''meta''],
             rows = [ [''/d/a.dcm'', ''/a.dcm'', ''500''], [''/d/b.dcm'', ''/b.dcm'', ''2000'']]\<rparr> \<and>
   tables (world_of (run demo_ext (other_world\<lparr>tables := Map.empty\<rparr>))) ''c.s.t''
     = tables (world_of (run demo_ext other_world)) ''c.s.t''"
proof -
  have r: "result_of (run demo_ext other_world) = Inr (quiet_vars demo_ext ''/d/'' ''c.s.t'')"
    using quiet_run [of demo_ext other_world] by (simp add: demo_silent other_params result_of_def)
  have s: "tables other_world ''c.s.t'' = Some \<lparr>columns = [''stale''], rows = [ [''x'']]\<rparr>"
    by (simp add: other_world_def)
  have m: "extracted demo_ext ''/d/''
     = \<lparr>columns = [''path'', ''local_path'', ''meta''],
        rows = [ [''/d/a.dcm'', ''/a.dcm'', ''500''], [''/d/b.dcm'', ''/b.dcm'', ''2000'']]\<rparr>"
    by (simp add: extracted_def add_meta_def demo_ext_def)
  from overwrite_twice_is_overwrite_once [OF r]
  have a: "tables (world_of (run demo_ext other_world)) (table (quiet_vars demo_ext ''/d/'' ''c.s.t''))
      = Some (meta_df (quiet_vars demo_ext ''/d/'' ''c.s.t''))"
    and b: "tables (world_of (run demo_ext (other_world\<lparr>tables := Map.empty\<rparr>)))
        (table (quiet_vars demo_ext ''/d/'' ''c.s.t''))
      = Some (meta_df (quiet_vars demo_ext ''/d/'' ''c.s.t''))"
    by blast+
  from r s a b show ?thesis
    unfolding quiet_vars_simps m by simp
qed

text \<open>
  C9. In a run that succeeds the filtering step loads the table, which holds the
  metadata dataframe, and keeps exactly the rows on which the expression
  meta:img_max < 1000 is true: the filtered dataframe has the table's columns and
  those rows and no others; the count that follows returns their number.
\<close>

theorem filter_keeps_img_max_below_1000:
  assumes "result_of (run x w) = Inr v"
  shows "tables (world_of (run x w)) (table v) = Some (meta_df v) \<and>
         (CatalogLoad (table v), Returned (VDf (meta_df v))) \<in> set (trace_of (run x w)) \<and>
         (Filter (meta_df v) ''meta:img_max < 1000'', Returned (VDf (dcm_df_filtered v)))
            \<in> set (trace_of (run x w)) \<and>
         columns (dcm_df_filtered v) = columns (meta_df v) \<and>
         rows (dcm_df_filtered v) =
           filter (sql_pred x ''meta:img_max < 1000'' (columns (meta_df v))) (rows (meta_df v)) \<and>
         (Count (dcm_df_filtered v),
          Returned (VInt (int (length (filter (sql_pred x ''meta:img_max < 1000'' (columns (meta_df v)))
                                              (rows (meta_df v)))))))
            \<in> set (trace_of (run x w))"
proof -
  have k: "rows (kept x p) =
      filter (sql_pred x ''meta:img_max < 1000'' (columns (extracted x p))) (rows (extracted x p))"
    "columns (kept x p) = columns (extracted x p)" for p
    by (simp_all add: kept_def)
  have c: "(Count (kept x p),
          Returned (VInt (int (length (filter (sql_pred x ''meta:img_max < 1000'' (columns (extracted x p)))
                                              (rows (extracted x p)))))))
            \<in> set (quiet_trace x p t)" for p t
    using in_quiet_trace(4) [of x p t] by (simp only: k)
  show ?thesis
    unfolding run_Inr(1,2,3) [OF assms] quiet_vars_simps
    by (intro conjI in_quiet_trace k c) (simp add: quiet_world_def)
qed

theorem filter_keeps_img_max_below_1000_witness:
  "result_of (run demo_ext demo_world) = Inr (quiet_vars demo_ext ''/d/'' ''c.s.t'') \<and>
   rows (meta_df (quiet_vars demo_ext ''/d/'' ''c.s.t''))
     = [ [''/d/a.dcm'', ''/a.dcm'', ''500''], [''/d/b.dcm'', ''/b.dcm'', ''2000'']] \<and>
   rows (dcm_df_filtered (quiet_vars demo_ext ''/d/'' ''c.s.t''))
     = [ [''/d/a.dcm'', ''/a.dcm'', ''500'']] \<and>
   (Count (dcm_df_filtered (quiet_vars demo_ext ''/d/'' ''c.s.t'')), Returned (VInt 1))
     \<in> set (trace_of (run demo_ext demo_world))"
proof -
  have m: "rows (meta_df (quiet_vars demo_ext ''/d/'' ''c.s.t''))
     = [ [''/d/a.dcm'', ''/a.dcm'', ''500''], [''/d/b.dcm'', ''/b.dcm'', ''2000'']]"
    "columns (meta_df (quiet_vars demo_ext ''/d/'' ''c.s.t'')) = [''path'', ''local_path'', ''meta'']"
    by (simp_all add: quiet_vars_simps demo_extracted)
  have f: "filter (sql_pred demo_ext ''meta:img_max < 1000'' [''path'', ''local_path'', ''meta''])
             [ [''/d/a.dcm'', ''/a.dcm'', ''500''], [''/d/b.dcm'', ''/b.dcm'', ''2000'']]
           = [ [''/d/a.dcm'', ''/a.dcm'', ''500'']]"
    by (simp add: demo_ext_def)
  from filter_keeps_img_max_below_1000 [OF demo_result]
  have "rows (dcm_df_filtered (quiet_vars demo_ext ''/d/'' ''c.s.t'')) =
           filter (sql_pred demo_ext ''meta:img_max < 1000'' (columns (meta_df (quiet_vars demo_ext ''/d/'' ''c.s.t''))))
                  (rows (meta_df (quiet_vars demo_ext ''/d/'' ''c.s.t'')))"
    and "(Count (dcm_df_filtered (quiet_vars demo_ext ''/d/'' ''c.s.t'')),
          Returned (VInt (int (length (filter (sql_pred demo_ext ''meta:img_max < 1000''
                                                 (columns (meta_df (quiet_vars demo_ext ''/d/'' ''c.s.t''))))
                                              (rows (meta_df (quiet_vars demo_ext ''/d/'' ''c.s.t''))))))))
            \<in> set (trace_of (run demo_ext demo_world))"
    by blast+
  then show ?thesis
    unfolding m f using demo_result by simp
qed

text \<open>
  C10. In a run that succeeds the plotting step renders at most 100 thumbnails: the
  filtered dataframe is cut with limit(100), the cut dataframe is what DicomFrames
  receives, with withMeta=True and inputCol=local_path, and plotx renders one thumbnail
  for each of its rows, so their number is the smaller of 100 and the number of
  filtered rows.
\<close>

theorem at_most_100_thumbnails:
  assumes "result_of (run x w) = Inr v"
  shows "length (plots v) \<le> 100 \<and>
         length (plots v) = min 100 (length (rows (dcm_df_filtered v))) \<and>
         plots v = map (thumbnail x True ''local_path'' (columns (dcm_df_filtered v)))
                       (take 100 (rows (dcm_df_filtered v))) \<and>
         (Limit (dcm_df_filtered v) 100,
          Returned (VDf ((dcm_df_filtered v)\<lparr>rows := take 100 (rows (dcm_df_filtered v))\<rparr>)))
            \<in> set (trace_of (run x w)) \<and>
         (NewDicomFrames ((dcm_df_filtered v)\<lparr>rows := take 100 (rows (dcm_df_filtered v))\<rparr>)
             True ''local_path'',
          Returned (VFrames \<lparr>frames_df = (dcm_df_filtered v)\<lparr>rows := take 100 (rows (dcm_df_filtered v))\<rparr>,
                             with_meta = True, input_col = ''local_path''\<rparr>))
            \<in> set (trace_of (run x w)) \<and>
         (Plotx \<lparr>frames_df = (dcm_df_filtered v)\<lparr>rows := take 100 (rows (dcm_df_filtered v))\<rparr>,
                  with_meta = True, input_col = ''local_path''\<rparr>,
          Returned (VPlots (plots v)))
            \<in> set (trace_of (run x w))"
proof -
  have s: "(kept x p)\<lparr>rows := take 100 (rows (kept x p))\<rparr> = shown x p" for p
    by (simp add: shown_def)
  have t: "thumbs x p = map (thumbnail x True ''local_path'' (columns (kept x p))) (take 100 (rows (kept x p)))" for p
    by (simp add: thumbs_def shown_def)
  show ?thesis
    unfolding run_Inr(1,2) [OF assms] quiet_vars_simps s
    by (intro conjI in_quiet_trace) (simp_all add: t)
qed

theorem at_most_100_thumbnails_witness:
  "result_of (run many_ext demo_world) = Inr (quiet_vars many_ext ''/d/'' ''c.s.t'') \<and>
   length (rows (dcm_df_filtered (quiet_vars many_ext ''/d/'' ''c.s.t''))) = 101 \<and>
   length (plots (quiet_vars many_ext ''/d/'' ''c.s.t'')) = 100"
proof -
  have l: "length (rows (dcm_df_filtered (quiet_vars many_ext ''/d/'' ''c.s.t''))) = 101"
    by (simp add: quiet_vars_simps many_kept)
  from at_most_100_thumbnails [OF many_result]
  have "length (plots (quiet_vars many_ext ''/d/'' ''c.s.t''))
          = min 100 (length (rows (dcm_df_filtered (quiet_vars many_ext ''/d/'' ''c.s.t''))))"
    by blast
  then show ?thesis using many_result l by simp
qed

text \<open>
  C6. Every operation of the notebook is one call into a library, and the notebook
  computes nothing of its own. In every run, whatever the libraries do and whichever call
  fails: each datum handed to a call (a dataframe, a frames object, a displayed value,
  the path or the table string) is exactly the value an earlier call returned; every
  other argument of a call is the literal the file writes there (the save mode, the SQL
  texts, the partition numbers, the filter expression, the limit, the display options),
  in the file's order; and the trace is the trace of the failure-free run cut at the
  first call that fails. A run that succeeds issues every call of the file, each once
  and in the file's order: the listing, the cataloging, the two saves, the two loads,
  the transform, the plotting, with the repartitioning, the filter and the limit between
  them; and each variable of the notebook ends bound to a value that some call returned.
\<close>

theorem notebook_only_passes_data_on:
  "passes_on [] (trace_of (run x w)) \<and>
   prefix (names (trace_of (run x w))) script \<and>
   prefix (literals (trace_of (run x w))) file_literals \<and>
   trace_of (run x w) = fst (replay x 0 (quiet_trace x (path_param w) (table_param w))) \<and>
   (\<forall>v. result_of (run x w) = Inr v \<longrightarrow>
        names (trace_of (run x w)) = script \<and>
        literals (trace_of (run x w)) = file_literals \<and>
        trace_of (run x w) = quiet_trace x (path v) (table v) \<and>
        list_all (\<lambda>b. b \<in> set (returns (trace_of (run x w)))) (bindings v))"
proof (intro conjI allI impI)
  show "passes_on [] (trace_of (run x w))"
    unfolding run_replay(1) by (rule replay_passes_on [OF quiet_passes_on])
  show "prefix (names (trace_of (run x w))) script"
    by (rule run_names)
  show "prefix (literals (trace_of (run x w))) file_literals"
    by (rule run_literals)
  show "trace_of (run x w) = fst (replay x 0 (quiet_trace x (path_param w) (table_param w)))"
    by (rule run_replay(1))
next
  fix v assume r: "result_of (run x w) = Inr v"
  note v = run_Inr(1) [OF r] and t = run_Inr(2) [OF r]
  show "names (trace_of (run x w)) = script"
    unfolding t by (rule quiet_names)
  show "literals (trace_of (run x w)) = file_literals"
    unfolding t by (rule quiet_literals)
  show "trace_of (run x w) = quiet_trace x (path v) (table v)"
    unfolding t v quiet_vars_simps by (rule refl)
  show "list_all (\<lambda>b. b \<in> set (returns (trace_of (run x w)))) (bindings v)"
    unfolding t v by (rule quiet_bindings)
qed

theorem notebook_only_passes_data_on_witness:
  "result_of (run demo_ext demo_world) = Inr (quiet_vars demo_ext ''/d/'' ''c.s.t'') \<and>
   names (trace_of (run demo_ext demo_world)) = script \<and>
   literals (trace_of (run demo_ext demo_world)) = file_literals \<and>
   length (trace_of (run demo_ext demo_world)) = 33 \<and>
   passes_on [] (trace_of (run demo_ext demo_world)) \<and>
   VPlots [''png:/d/a.dcm''] \<in> set (returns (trace_of (run demo_ext demo_world))) \<and>
   plots (quiet_vars demo_ext ''/d/'' ''c.s.t'') = [''png:/d/a.dcm'']"
proof -
  note T = notebook_only_passes_data_on [of demo_ext demo_world]
  from T have a: "passes_on [] (trace_of (run demo_ext demo_world))"
    by blast
  from T demo_result have b: "names (trace_of (run demo_ext demo_world)) = script"
    and c: "literals (trace_of (run demo_ext demo_world)) = file_literals"
    and d: "list_all (\<lambda>b. b \<in> set (returns (trace_of (run demo_ext demo_world))))
              (bindings (quiet_vars demo_ext ''/d/'' ''c.s.t''))"
    by blast+
  have l: "length (trace_of (run demo_ext demo_world)) = 33"
    using arg_cong [OF b, of length] by (simp add: names_def script_def)
  have p: "plots (quiet_vars demo_ext ''/d/'' ''c.s.t'') = [''png:/d/a.dcm'']"
    by (simp add: quiet_vars_simps thumbs_def shown_def demo_kept) (simp add: demo_ext_def)
  from d have e: "VPlots [''png:/d/a.dcm''] \<in> set (returns (trace_of (run demo_ext demo_world)))"
    by (simp add: bindings_def p)
  from demo_result b c l a e p show ?thesis by (intro conjI)
qed

text \<open>
  C5. The notebook has no branch, loop or handler of its own. Every run is the one
  sequence of calls of the file, cut at the first call that fails: its trace is the
  trace of the failure-free run up to that call, and its result is that call's
  exception, or the final bindings when no call fails. So a run that succeeds issues
  all the calls of the file in order; a run that fails stops at the failing call, whose
  exception is the result, and has issued the file's calls up to it and nothing else.
  Two runs with the same library behaviour and the same two parameter values issue the
  same calls with the same arguments in the same order and end with the same result,
  whatever else differs between the worlds they start in.
\<close>

theorem notebook_has_one_path:
  assumes "path_param w' = path_param w" and "table_param w' = table_param w"
  shows "trace_of (run x w) = fst (replay x 0 (quiet_trace x (path_param w) (table_param w))) \<and>
         result_of (run x w) =
           (case snd (replay x 0 (quiet_trace x (path_param w) (table_param w))) of
              None \<Rightarrow> Inr (quiet_vars x (path_param w) (table_param w))
            | Some e \<Rightarrow> Inl e) \<and>
         prefix (names (trace_of (run x w))) script \<and>
         (\<forall>v. result_of (run x w) = Inr v \<longrightarrow> names (trace_of (run x w)) = script) \<and>
         (\<forall>e. result_of (run x w) = Inl e \<longrightarrow>
              trace_of (run x w) \<noteq> [] \<and>
              snd (last (trace_of (run x w))) = Raised e \<and>
              names (trace_of (run x w)) = take (length (trace_of (run x w))) script \<and>
              fails x (length (trace_of (run x w)) - 1) (fst (last (trace_of (run x w)))) = Some e) \<and>
         trace_of (run x w') = trace_of (run x w) \<and>
         result_of (run x w') = result_of (run x w)"
proof (intro conjI allI impI)
  show "trace_of (run x w) = fst (replay x 0 (quiet_trace x (path_param w) (table_param w)))"
    by (rule run_replay(1))
  show "result_of (run x w) =
           (case snd (replay x 0 (quiet_trace x (path_param w) (table_param w))) of
              None \<Rightarrow> Inr (quiet_vars x (path_param w) (table_param w))
            | Some e \<Rightarrow> Inl e)"
    by (rule run_replay(2))
  show "prefix (names (trace_of (run x w))) script"
    by (rule run_names)
  show "trace_of (run x w') = trace_of (run x w)"
    by (rule run_same(1) [OF assms])
  show "result_of (run x w') = result_of (run x w)"
    by (rule run_same(2) [OF assms])
next
  fix v assume "result_of (run x w) = Inr v"
  then show "names (trace_of (run x w)) = script"
    by (simp add: run_Inr(2) quiet_names)
next
  fix e assume r: "result_of (run x w) = Inl e"
  from replay_Some [OF run_Inl [OF r]]
  show "trace_of (run x w) \<noteq> []" and "snd (last (trace_of (run x w))) = Raised e"
    by (simp_all add: run_replay(1))
  from prefix_take [OF run_names [of x w]]
  show "names (trace_of (run x w)) = take (length (trace_of (run x w))) script"
    by (simp add: names_def)
  show "fails x (length (trace_of (run x w)) - 1) (fst (last (trace_of (run x w)))) = Some e"
    unfolding run_replay(1) by (rule replay_last_fails [OF run_Inl [OF r]])
qed

theorem notebook_has_one_path_witness:
  "path_param other_world = path_param demo_world \<and>
   table_param other_world = table_param demo_world \<and>
   tables other_world ''c.s.t'' \<noteq> tables demo_world ''c.s.t'' \<and>
   prefix (names (trace_of (run failing_ext demo_world))) script \<and>
   trace_of (run failing_ext other_world) = trace_of (run failing_ext demo_world) \<and>
   result_of (run failing_ext other_world) = Inl (LibraryError ''table is gone'') \<and>
   length (trace_of (run failing_ext demo_world)) = 14 \<and>
   names (trace_of (run failing_ext demo_world)) = take 14 script \<and>
   snd (last (trace_of (run failing_ext demo_world))) = Raised (LibraryError ''table is gone'')"
proof -
  have p: "path_param other_world = path_param demo_world"
    and t: "table_param other_world = table_param demo_world"
    by (simp_all add: other_params demo_params)
  have d: "tables other_world ''c.s.t'' \<noteq> tables demo_world ''c.s.t''"
    by (simp add: other_world_def demo_world_def)
  have l: "length (trace_of (run failing_ext demo_world)) = 14"
    by (simp add: failing_trace quiet_trace_def)
  note T = notebook_has_one_path [OF p t, of failing_ext]
  from T have a: "prefix (names (trace_of (run failing_ext demo_world))) script"
    and b: "trace_of (run failing_ext other_world) = trace_of (run failing_ext demo_world)"
    and c: "result_of (run failing_ext other_world) = result_of (run failing_ext demo_world)"
    by blast+
  from T failing_result
  have e: "names (trace_of (run failing_ext demo_world))
             = take (length (trace_of (run failing_ext demo_world))) script"
    and f: "snd (last (trace_of (run failing_ext demo_world))) = Raised (LibraryError ''table is gone'')"
    by blast+
  from p t d a b c e f show ?thesis
    unfolding l failing_result by (intro conjI) simp_all
qed

end
